theory Spec2Isabelle
  imports Main
begin

section \<open>Errors\<close>

text \<open>
  Modelled from the spec: \<open>struct Error\<close> with its constructors \<open>success()\<close> and
  \<open>failure(str, identity, attempt)\<close> is declared in a header that is not part of the
  sources at hand. Sections 6 and 7: a kernel returns an error descriptor with a nullable
  message and an offending-index field.
\<close>

datatype Error = success | failure string "int option" "int option"

text \<open>
  Modelled from the spec: the constant \<open>kSliceNone\<close> is declared outside the sources at
  hand. It marks an absent index in an error descriptor; it is \<open>None\<close> here.
\<close>

definition kSliceNone :: "int option" where
  "kSliceNone = None"

text \<open>
  The exceptions a method of the list layer can leave with: the two C++ exception classes
  thrown directly in the source, the failure raised by \<open>handle_error\<close>, a failed allocation,
  and a read outside the window of an index (undefined behaviour in C++, an explicit value here).
\<close>

datatype exception =
    invalid_argument string
  | runtime_error string
  | kernel_error string string "int option" "int option"
  | bad_alloc
  | out_of_window

text \<open>
  Modelled from the spec: \<open>util::handle_error\<close> is not part of the sources at hand.
  Section 7: the orchestrator converts an error descriptor that has a message into a failure
  and attaches the originating class name; a descriptor without a message is no error.
\<close>

definition handle_error :: "Error \<Rightarrow> string \<Rightarrow> exception + unit" where
  "handle_error err classname =
     (case err of
        success \<Rightarrow> Inr ()
      | failure str identity attempt \<Rightarrow> Inl (kernel_error classname str identity attempt))"

text \<open>Sequencing: the first exception ends the computation.\<close>

fun bind_exn :: "exception + 'a \<Rightarrow> ('a \<Rightarrow> exception + 'b) \<Rightarrow> exception + 'b" where
  "bind_exn (Inl e) f = Inl e"
| "bind_exn (Inr x) f = f x"

fun collect :: "(exception + 'a) list \<Rightarrow> exception + 'a list" where
  "collect [] = Inr []"
| "collect (r # rs) = bind_exn r (\<lambda>x. bind_exn (collect rs) (\<lambda>xs. Inr (x # xs)))"

text \<open>\<open>std::to_string\<close> on a 64-bit integer: its decimal digits.\<close>

fun digits :: "nat \<Rightarrow> string" where
  "digits n =
     (if n < 10 then [char_of (48 + n)] else digits (n div 10) @ [char_of (48 + n mod 10)])"

definition to_string :: "int \<Rightarrow> string" where
  "to_string i = (if i < 0 then CHR ''-'' # digits (nat (- i)) else digits (nat i))"

section \<open>Indexes and buffers\<close>

text \<open>
  \<open>IndexOf<T>\<close> is a window \<open>(ptr, offset, length)\<close> of integers of width \<open>T\<close>. The model
  keeps the content of the window as a list of integers; 64-bit quantities are mathematical
  integers (signed overflow is undefined in C++ and no property below depends on it). A
  kernel receives raw pointers: what it writes is a function from positions to values, a
  \<open>buffer\<close>, and the length of the result is the length the caller allocated.
\<close>

datatype width = I32 | U32 | I64

type_synonym index = "int list"

type_synonym buffer = "nat \<Rightarrow> int"

text \<open>
  Modelled from the spec: the class \<open>IndexOf<T>\<close> is not part of the sources at hand.
  Section 3: an index is read within \<open>[0, length)\<close> and never outside this window, so
  \<open>getitem_at_nowrap\<close> of an index returns the element inside the window and is an
  explicit failure outside.
\<close>

definition Index_getitem_at_nowrap :: "index \<Rightarrow> int \<Rightarrow> exception + int" where
  "Index_getitem_at_nowrap ix at =
     (if 0 \<le> at \<and> at < int (length ix) then Inr (ix ! nat at) else Inl out_of_window)"

text \<open>
  Modelled from the spec: the constructor \<open>Index64 x(n)\<close> is not part of the sources at
  hand. It allocates \<open>n\<close> elements; section 5: when an allocation fails the whole operation
  fails, and a negative length cannot be allocated.
\<close>

definition Index64_new :: "int \<Rightarrow> exception + unit" where
  "Index64_new n = (if n < 0 then Inl bad_alloc else Inr ())"

text \<open>
  Modelled from the spec: the index of length \<open>n\<close> after a kernel has written \<open>b\<close> through
  the pointer of \<open>Index64 x(n)\<close>; the window keeps the length it was allocated with
  (section 3).
\<close>

definition Index64_filled :: "int \<Rightarrow> buffer \<Rightarrow> index" where
  "Index64_filled n b = map b [0..<nat n]"

text \<open>
  Modelled from the spec: \<open>util::make_starts\<close> is not part of the sources at hand. Sublist
  \<open>i\<close> spans \<open>offsets[i] .. offsets[i+1]\<close> (section 3), so the starts are the offsets
  without the last one.
\<close>

definition make_starts :: "index \<Rightarrow> index" where
  "make_starts offsets = butlast offsets"

text \<open>
  Modelled from the spec: \<open>util::make_stops\<close> is not part of the sources at hand. Sublist
  \<open>i\<close> spans \<open>offsets[i] .. offsets[i+1]\<close> (section 3), so the stops are the offsets
  without the first one.
\<close>

definition make_stops :: "index \<Rightarrow> index" where
  "make_stops offsets = tl offsets"

section \<open>Layouts and the Content interface\<close>

text \<open>
  A layout is a tree of nodes. The list layer of the source is \<open>ListOffsetArray\<close>; the
  nodes \<open>ListArray64\<close>, \<open>RegularArray\<close> and \<open>RecordArray\<close> are the ones its methods
  build, and \<open>Other\<close> stands for any other layout class. Identities and the parameters of
  the list layer are left out: section 9 of the spec treats them as a parallel channel.
\<close>

type_synonym Parameters = "(string \<times> string) list"

type_synonym RecordLookup = "string list option"

datatype 'c content =
    Other 'c
  | ListOffsetArray width index "'c content"
  | ListArray64 index index "'c content"
  | RegularArray "'c content" int
  | RecordArray Parameters "'c content list" RecordLookup

text \<open>
  Modelled from the spec: the class \<open>Reducer\<close> is not part of the sources at hand; section 1
  lists the reducers. The list layer only hands the reducer on to its content.
\<close>

datatype Reducer =
    ReducerCount | ReducerCountNonzero | ReducerSum | ReducerProd
  | ReducerMin | ReducerMax | ReducerArgmin | ReducerArgmax

text \<open>
  The virtual methods that the list layer calls on its content (and the methods it inherits
  from the base class \<open>Content\<close>) are implemented by classes outside the sources at hand.
  They are parameters of the model: every theorem holds for every implementation.
  \<open>length()\<close> is a count, so it is a natural number.
\<close>

record 'c Content =
  content_length :: "'c content \<Rightarrow> nat"
  content_branch_depth :: "'c content \<Rightarrow> bool \<times> int"
  content_carry :: "'c content \<Rightarrow> index \<Rightarrow> exception + 'c content"
  content_getitem_range_nowrap :: "'c content \<Rightarrow> int \<Rightarrow> int \<Rightarrow> exception + 'c content"
  content_reduce_next ::
    "'c content \<Rightarrow> Reducer \<Rightarrow> int \<Rightarrow> index \<Rightarrow> index \<Rightarrow> int \<Rightarrow> bool \<Rightarrow> bool
      \<Rightarrow> exception + 'c content"
  content_sort_next ::
    "'c content \<Rightarrow> int \<Rightarrow> index \<Rightarrow> index \<Rightarrow> int \<Rightarrow> bool \<Rightarrow> bool \<Rightarrow> bool
      \<Rightarrow> exception + 'c content"
  content_argsort_next ::
    "'c content \<Rightarrow> int \<Rightarrow> index \<Rightarrow> index \<Rightarrow> int \<Rightarrow> bool \<Rightarrow> bool \<Rightarrow> bool
      \<Rightarrow> exception + 'c content"
  content_combinations ::
    "'c content \<Rightarrow> int \<Rightarrow> bool \<Rightarrow> RecordLookup \<Rightarrow> Parameters \<Rightarrow> int \<Rightarrow> int
      \<Rightarrow> exception + 'c content"
  content_offsets_and_flattened ::
    "'c content \<Rightarrow> int \<Rightarrow> int \<Rightarrow> exception + (index \<times> 'c content)"
  axis_wrap_if_negative :: "'c content \<Rightarrow> int \<Rightarrow> exception + int"
  combinations_axis0 ::
    "'c content \<Rightarrow> int \<Rightarrow> bool \<Rightarrow> RecordLookup \<Rightarrow> Parameters \<Rightarrow> exception + 'c content"

section \<open>Kernels\<close>

text \<open>
  Modelled from the spec: the kernel \<open>awkward_listoffsetarray_compact_offsets64\<close> is not
  part of the sources at hand. Section 4.2: the output has the length of the input and
  \<open>out[i] = offsets[i] - offsets[0]\<close>.
\<close>

definition awkward_listoffsetarray_compact_offsets64 :: "index \<Rightarrow> int \<Rightarrow> Error \<times> buffer" where
  "awkward_listoffsetarray_compact_offsets64 fromoffsets len =
     (success, \<lambda>i. fromoffsets ! i - fromoffsets ! 0)"

text \<open>
  Modelled from the spec: the kernel \<open>awkward_listoffsetarray_reduce_global_startstop_64\<close>
  is only declared in the sources at hand. Section 4.2: it scans the offsets and returns
  \<open>(offsets[0], offsets[N])\<close>.
\<close>

definition awkward_listoffsetarray_reduce_global_startstop_64 ::
  "index \<Rightarrow> int \<Rightarrow> Error \<times> int \<times> int" where
  "awkward_listoffsetarray_reduce_global_startstop_64 offsets len =
     (success, offsets ! 0, offsets ! nat len)"

text \<open>
  Modelled from the spec: the kernel \<open>awkward_listoffsetarray_reduce_local_nextparents_64\<close>
  is only declared in the sources at hand. Section 4.3: \<open>nextparents\<close> has
  \<open>offsets[N] - offsets[0]\<close> elements and every element of sublist \<open>i\<close> receives parent
  \<open>i\<close>; element \<open>k\<close> of the trimmed content belongs to the sublist \<open>i\<close> with
  \<open>offsets[i] \<le> offsets[0] + k < offsets[i+1]\<close>.
\<close>

definition awkward_listoffsetarray_reduce_local_nextparents_64 ::
  "index \<Rightarrow> int \<Rightarrow> Error \<times> buffer" where
  "awkward_listoffsetarray_reduce_local_nextparents_64 offsets len =
     (success,
      \<lambda>k. case find (\<lambda>i. offsets ! i \<le> offsets ! 0 + int k \<and> offsets ! 0 + int k < offsets ! (i + 1))
                     [0..<nat len] of
             Some i \<Rightarrow> int i
           | None \<Rightarrow> 0)"

text \<open>
  Modelled from the spec: the kernel \<open>awkward_listoffsetarray_reduce_local_outoffsets_64\<close>
  is only declared in the sources at hand. Section 4.3: \<open>outoffsets\<close> has \<open>outlength + 1\<close>
  elements and \<open>outoffsets[j+1] - outoffsets[j]\<close> is the number of \<open>k\<close> with
  \<open>parents[k] = j\<close>; the offsets start at zero, so \<open>outoffsets[j]\<close> is the number of
  \<open>k\<close> with \<open>parents[k] < j\<close>.
\<close>

definition awkward_listoffsetarray_reduce_local_outoffsets_64 ::
  "index \<Rightarrow> int \<Rightarrow> int \<Rightarrow> Error \<times> buffer" where
  "awkward_listoffsetarray_reduce_local_outoffsets_64 parents lenparents outlength =
     (success, \<lambda>j. int (length (filter (\<lambda>p. p < int j) parents)))"

text \<open>
  The remaining kernels are declared in the sources at hand (or in headers outside them)
  and described by the spec only in outline. They are parameters of the model: each takes
  the windows it reads and the scalar arguments of the call, and returns its error
  descriptor together with what it writes.
\<close>

record Kernels =
  awkward_listoffsetarray_reduce_nonlocal_maxcount_offsetscopy_64 ::
    "index \<Rightarrow> int \<Rightarrow> Error \<times> int \<times> buffer"
  awkward_listoffsetarray_reduce_nonlocal_preparenext_64 ::
    "int \<Rightarrow> int \<Rightarrow> index \<Rightarrow> index \<Rightarrow> int \<Rightarrow> index \<Rightarrow> int
      \<Rightarrow> Error \<times> buffer \<times> buffer \<times> int \<times> buffer"
  awkward_listoffsetarray_reduce_nonlocal_nextstarts_64 ::
    "index \<Rightarrow> int \<Rightarrow> Error \<times> buffer"
  awkward_listoffsetarray_reduce_nonlocal_findgaps_64 ::
    "index \<Rightarrow> int \<Rightarrow> Error \<times> buffer"
  awkward_listoffsetarray_reduce_nonlocal_outstartsstops_64 ::
    "index \<Rightarrow> int \<Rightarrow> index \<Rightarrow> int \<Rightarrow> Error \<times> buffer \<times> buffer"
  awkward_listoffsetarray_local_preparenext_64 ::
    "index \<Rightarrow> int \<Rightarrow> Error \<times> buffer"
  awkward_listarray_broadcast_tooffsets64 ::
    "index \<Rightarrow> int \<Rightarrow> index \<Rightarrow> index \<Rightarrow> int \<Rightarrow> Error \<times> buffer"
  awkward_listarray_combinations_length_64 ::
    "int \<Rightarrow> bool \<Rightarrow> index \<Rightarrow> index \<Rightarrow> int \<Rightarrow> Error \<times> int \<times> buffer"
  awkward_listarray_combinations_64 ::
    "int \<Rightarrow> bool \<Rightarrow> index \<Rightarrow> index \<Rightarrow> int \<Rightarrow> Error \<times> (nat \<Rightarrow> buffer)"
  awkward_listoffsetarray_flatten_offsets_64 ::
    "index \<Rightarrow> int \<Rightarrow> index \<Rightarrow> int \<Rightarrow> Error \<times> buffer"

section \<open>The list layer\<close>

subsection \<open>Construction, length, class name\<close>

definition ListOffsetArrayOf :: "width \<Rightarrow> index \<Rightarrow> 'c content \<Rightarrow> exception + 'c content" where
  "ListOffsetArrayOf T offsets content =
     (if length offsets = 0
      then Inl (invalid_argument ''ListOffsetArray offsets length must be at least 1'')
      else Inr (ListOffsetArray T offsets content))"

fun offsets_of :: "'c content \<Rightarrow> index" where
  "offsets_of (ListOffsetArray T this_offsets this_content) = this_offsets"

fun content_of :: "'c content \<Rightarrow> 'c content" where
  "content_of (ListOffsetArray T this_offsets this_content) = this_content"

fun classname :: "'c content \<Rightarrow> string" where
  "classname (ListOffsetArray T this_offsets this_content) =
     (if T = I32 then ''ListOffsetArray32''
      else if T = U32 then ''ListOffsetArrayU32''
      else if T = I64 then ''ListOffsetArray64''
      else ''UnrecognizedListOffsetArray'')"

fun length_array :: "'c content \<Rightarrow> int" where
  "length_array (ListOffsetArray T this_offsets this_content) = int (length this_offsets) - 1"

text \<open>
  \<open>branch_depth()\<close> of the list layer. The array inherits the method from the base class,
  which is outside the sources at hand; the model takes it to be what
  \<open>ListOffsetForm::branch_depth\<close> computes from the content's: the same flag, and one more
  level of depth. No theorem depends on how the pair is computed.
\<close>

fun branch_depth :: "'c Content \<Rightarrow> 'c content \<Rightarrow> bool \<times> int" where
  "branch_depth C (ListOffsetArray T this_offsets this_content) =
     (let content_depth = content_branch_depth C this_content
      in (fst content_depth, snd content_depth + 1))"

subsection \<open>Canonical form\<close>

fun compact_offsets64 :: "'c content \<Rightarrow> bool \<Rightarrow> exception + index" where
  "compact_offsets64 (ListOffsetArray T this_offsets this_content) start_at_zero =
     (if T = I64 then
        bind_exn (if \<not> start_at_zero then Inr True
                  else bind_exn (Index_getitem_at_nowrap this_offsets 0) (\<lambda>first. Inr (first = 0)))
        (\<lambda>unchanged.
          if unchanged then Inr this_offsets
          else
            let len = int (length this_offsets) - 1 in
            bind_exn (Index64_new (len + 1)) (\<lambda>_.
            let (err, out) = awkward_listoffsetarray_compact_offsets64 this_offsets len in
            bind_exn (handle_error err (classname (ListOffsetArray T this_offsets this_content))) (\<lambda>_.
            Inr (Index64_filled (len + 1) out))))
      else
        let len = int (length this_offsets) - 1 in
        bind_exn (Index64_new (len + 1)) (\<lambda>_.
        let (err, out) = awkward_listoffsetarray_compact_offsets64 this_offsets len in
        bind_exn (handle_error err (classname (ListOffsetArray T this_offsets this_content))) (\<lambda>_.
        Inr (Index64_filled (len + 1) out))))"

fun broadcast_tooffsets64 ::
  "'c Content \<Rightarrow> Kernels \<Rightarrow> 'c content \<Rightarrow> index \<Rightarrow> exception + 'c content" where
  "broadcast_tooffsets64 C K (ListOffsetArray T this_offsets this_content) offsets =
     bind_exn (if length offsets = 0 then Inr True
               else bind_exn (Index_getitem_at_nowrap offsets 0) (\<lambda>first. Inr (first \<noteq> 0)))
     (\<lambda>misuse.
       if misuse then
         Inl (invalid_argument
               ''broadcast_tooffsets64 can only be used with offsets that start at 0'')
       else if int (length offsets) - 1 > int (length this_offsets) - 1 then
         Inl (invalid_argument
               (''cannot broadcast ListOffsetArray of length ''
                @ to_string (int (length this_offsets) - 1) @ '' to length ''
                @ to_string (int (length offsets) - 1)))
       else
         let starts = make_starts this_offsets;
             stops = make_stops this_offsets in
         bind_exn (Index_getitem_at_nowrap offsets (int (length offsets) - 1)) (\<lambda>carrylen.
         bind_exn (Index64_new carrylen) (\<lambda>_.
         let (err, nextcarry) =
               awkward_listarray_broadcast_tooffsets64 K offsets (int (length offsets))
                 starts stops (int (content_length C this_content)) in
         bind_exn (handle_error err (classname (ListOffsetArray T this_offsets this_content))) (\<lambda>_.
         bind_exn (content_carry C this_content (Index64_filled carrylen nextcarry)) (\<lambda>nextcontent.
         ListOffsetArrayOf I64 offsets nextcontent)))))"

fun toListOffsetArray64 ::
  "'c Content \<Rightarrow> Kernels \<Rightarrow> 'c content \<Rightarrow> bool \<Rightarrow> exception + 'c content" where
  "toListOffsetArray64 C K (ListOffsetArray T this_offsets this_content) start_at_zero =
     bind_exn (if T \<noteq> I64 then Inr False
               else if \<not> start_at_zero then Inr True
               else bind_exn (Index_getitem_at_nowrap this_offsets 0) (\<lambda>first. Inr (first = 0)))
     (\<lambda>canonical.
       if canonical then ListOffsetArrayOf T this_offsets this_content
       else
         bind_exn (compact_offsets64 (ListOffsetArray T this_offsets this_content) start_at_zero)
           (\<lambda>offsets.
         broadcast_tooffsets64 C K (ListOffsetArray T this_offsets this_content) offsets))"

subsection \<open>Element access\<close>

fun getitem_at_nowrap :: "'c Content \<Rightarrow> 'c content \<Rightarrow> int \<Rightarrow> exception + 'c content" where
  "getitem_at_nowrap C (ListOffsetArray T this_offsets this_content) at =
     bind_exn (Index_getitem_at_nowrap this_offsets at) (\<lambda>start0.
     bind_exn (Index_getitem_at_nowrap this_offsets (at + 1)) (\<lambda>stop0.
     let lencontent = int (content_length C this_content);
         start = (if start0 = stop0 then 0 else start0);
         stop = (if start0 = stop0 then 0 else stop0) in
     bind_exn (if start < 0
               then handle_error (failure ''offsets[i] < 0'' kSliceNone (Some at))
                      (classname (ListOffsetArray T this_offsets this_content))
               else Inr ()) (\<lambda>_.
     bind_exn (if start > stop
               then handle_error (failure ''offsets[i] > offsets[i + 1]'' kSliceNone (Some at))
                      (classname (ListOffsetArray T this_offsets this_content))
               else Inr ()) (\<lambda>_.
     bind_exn (if stop > lencontent
               then handle_error
                      (failure ''offsets[i] != offsets[i + 1] and offsets[i + 1] > len(content)''
                         kSliceNone (Some at))
                      (classname (ListOffsetArray T this_offsets this_content))
               else Inr ()) (\<lambda>_.
     content_getitem_range_nowrap C this_content start stop)))))"

subsection \<open>Reduction\<close>

text \<open>
  The precondition check that opens the non-local branch of \<open>reduce_next\<close> (lines
  1417-1419), \<open>sort_next\<close> (lines 1717-1719) and \<open>argsort_next\<close> (lines 1867-1869).
\<close>

definition check_parents_length :: "index \<Rightarrow> index \<Rightarrow> exception + unit" where
  "check_parents_length this_offsets parents =
     (if int (length this_offsets) - 1 \<noteq> int (length parents)
      then Inl (runtime_error ''offsets_.length() - 1 != parents.length()'')
      else Inr ())"

text \<open>
  The preparation of the non-local strategy: the source repeats these statements verbatim
  in \<open>reduce_next\<close> (lines 1421-1470), \<open>sort_next\<close> (lines 1720-1767) and
  \<open>argsort_next\<close> (lines 1871-1917) of the 64-bit list layer. The model states them once
  and returns the local variables the three methods go on to use.
\<close>

record Prepared =
  p_nextlen :: int
  p_maxcount :: int
  p_nextcarry :: index
  p_nextparents :: index
  p_maxnextparents :: int
  p_distincts :: index
  p_nextstarts :: index

definition nonlocal_prepare ::
  "Kernels \<Rightarrow> string \<Rightarrow> index \<Rightarrow> index \<Rightarrow> int \<Rightarrow> exception + Prepared" where
  "nonlocal_prepare K cls this_offsets parents outlength =
     (let (err1, globalstart, globalstop) =
            awkward_listoffsetarray_reduce_global_startstop_64 this_offsets
              (int (length this_offsets) - 1) in
      bind_exn (handle_error err1 cls) (\<lambda>_.
      let nextlen = globalstop - globalstart in
      bind_exn (Index64_new (int (length this_offsets))) (\<lambda>_.
      let (err2, maxcount, offsetscopy) =
            awkward_listoffsetarray_reduce_nonlocal_maxcount_offsetscopy_64 K this_offsets
              (int (length this_offsets) - 1) in
      bind_exn (handle_error err2 cls) (\<lambda>_.
      bind_exn (Index64_new nextlen) (\<lambda>_.
      bind_exn (Index64_new nextlen) (\<lambda>_.
      bind_exn (Index64_new (maxcount * outlength)) (\<lambda>_.
      let (err3, nextcarry, nextparents, maxnextparents, distincts) =
            awkward_listoffsetarray_reduce_nonlocal_preparenext_64 K nextlen
              (maxcount * outlength)
              (Index64_filled (int (length this_offsets)) offsetscopy)
              this_offsets (int (length this_offsets) - 1) parents maxcount in
      bind_exn (handle_error err3 cls) (\<lambda>_.
      bind_exn (Index64_new (maxnextparents + 1)) (\<lambda>_.
      let (err4, nextstarts) =
            awkward_listoffsetarray_reduce_nonlocal_nextstarts_64 K
              (Index64_filled nextlen nextparents) nextlen in
      bind_exn (handle_error err4 cls) (\<lambda>_.
      Inr \<lparr> p_nextlen = nextlen,
            p_maxcount = maxcount,
            p_nextcarry = Index64_filled nextlen nextcarry,
            p_nextparents = Index64_filled nextlen nextparents,
            p_maxnextparents = maxnextparents,
            p_distincts = Index64_filled (maxcount * outlength) distincts,
            p_nextstarts = Index64_filled (maxnextparents + 1) nextstarts \<rparr>))))))))))"

text \<open>\<open>ListOffsetArrayOf<int64_t>::reduce_next\<close>, the specialisation for 64-bit offsets.\<close>

fun reduce_next64 ::
  "'c Content \<Rightarrow> Kernels \<Rightarrow> 'c content \<Rightarrow> Reducer \<Rightarrow> int \<Rightarrow> index \<Rightarrow> index \<Rightarrow> int \<Rightarrow> bool \<Rightarrow> bool
    \<Rightarrow> exception + 'c content" where
  "reduce_next64 C K (ListOffsetArray T this_offsets this_content)
       reducer negaxis starts parents outlength mask' keepdims =
     (let branchdepth = branch_depth C (ListOffsetArray T this_offsets this_content);
          cls = classname (ListOffsetArray T this_offsets this_content) in
      if \<not> fst branchdepth \<and> negaxis = snd branchdepth then
        bind_exn (check_parents_length this_offsets parents) (\<lambda>_.
          bind_exn (nonlocal_prepare K cls this_offsets parents outlength) (\<lambda>p.
          bind_exn (content_carry C this_content (p_nextcarry p)) (\<lambda>nextcontent.
          bind_exn (content_reduce_next C nextcontent reducer (negaxis - 1)
                      (p_nextstarts p) (p_nextparents p) (p_maxnextparents p + 1)
                      mask' False) (\<lambda>outcontent.
          bind_exn (Index64_new outlength) (\<lambda>_.
          let (err5, gaps) =
                awkward_listoffsetarray_reduce_nonlocal_findgaps_64 K parents
                  (int (length parents)) in
          bind_exn (handle_error err5 cls) (\<lambda>_.
          bind_exn (Index64_new outlength) (\<lambda>_.
          bind_exn (Index64_new outlength) (\<lambda>_.
          let (err6, outstarts, outstops) =
                awkward_listoffsetarray_reduce_nonlocal_outstartsstops_64 K
                  (p_distincts p) (p_maxcount p * outlength)
                  (Index64_filled outlength gaps) outlength in
          bind_exn (handle_error err6 cls) (\<lambda>_.
          let out = ListArray64 (Index64_filled outlength outstarts)
                      (Index64_filled outlength outstops) outcontent in
          Inr (if keepdims then RegularArray out 1 else out))))))))))
      else
        let (err1, globalstart, globalstop) =
              awkward_listoffsetarray_reduce_global_startstop_64 this_offsets
                (int (length this_offsets) - 1) in
        bind_exn (handle_error err1 cls) (\<lambda>_.
        bind_exn (Index64_new (globalstop - globalstart)) (\<lambda>_.
        let (err2, nextparents) =
              awkward_listoffsetarray_reduce_local_nextparents_64 this_offsets
                (int (length this_offsets) - 1) in
        bind_exn (handle_error err2 cls) (\<lambda>_.
        bind_exn (content_getitem_range_nowrap C this_content globalstart globalstop)
          (\<lambda>trimmed.
        bind_exn (content_reduce_next C trimmed reducer negaxis
                    (make_starts this_offsets)
                    (Index64_filled (globalstop - globalstart) nextparents)
                    (int (length this_offsets) - 1) mask' keepdims) (\<lambda>outcontent.
        bind_exn (Index64_new (outlength + 1)) (\<lambda>_.
        let (err3, outoffsets) =
              awkward_listoffsetarray_reduce_local_outoffsets_64 parents
                (int (length parents)) outlength in
        bind_exn (handle_error err3 cls) (\<lambda>_.
        ListOffsetArrayOf I64 (Index64_filled (outlength + 1) outoffsets) outcontent))))))))"

text \<open>
  \<open>reduce_next\<close> of the list layer for any offset width: the specialisation when the width
  is 64 bits, and otherwise the generic template, which converts and calls the method of the
  \<open>ListOffsetArray64\<close> that \<open>toListOffsetArray64\<close> has built.
\<close>

fun reduce_next ::
  "'c Content \<Rightarrow> Kernels \<Rightarrow> 'c content \<Rightarrow> Reducer \<Rightarrow> int \<Rightarrow> index \<Rightarrow> index \<Rightarrow> int \<Rightarrow> bool \<Rightarrow> bool
    \<Rightarrow> exception + 'c content" where
  "reduce_next C K (ListOffsetArray T this_offsets this_content)
       reducer negaxis starts parents len mask' keepdims =
     (if T = I64 then
        reduce_next64 C K (ListOffsetArray T this_offsets this_content)
          reducer negaxis starts parents len mask' keepdims
      else
        bind_exn (toListOffsetArray64 C K (ListOffsetArray T this_offsets this_content) True)
          (\<lambda>converted.
        reduce_next64 C K converted reducer negaxis starts parents len mask' keepdims))"

text \<open>
  The same step in the words of the spec (section 4.6, step 1): convert to the canonical
  64-bit compact form first, then run \<open>reduce_next\<close> on that form with the same arguments.
\<close>

definition reduce_next_canonical ::
  "'c Content \<Rightarrow> Kernels \<Rightarrow> 'c content \<Rightarrow> Reducer \<Rightarrow> int \<Rightarrow> index \<Rightarrow> index \<Rightarrow> int \<Rightarrow> bool \<Rightarrow> bool
    \<Rightarrow> exception + 'c content" where
  "reduce_next_canonical C K a reducer negaxis starts parents outlength mask' keepdims =
     (case toListOffsetArray64 C K a True of
        Inl e \<Rightarrow> Inl e
      | Inr canonical \<Rightarrow>
          reduce_next C K canonical reducer negaxis starts parents outlength mask' keepdims)"

subsection \<open>Sorting\<close>

text \<open>
  \<open>ListOffsetArrayOf<int64_t>::sort_next\<close> and \<open>ListOffsetArrayOf<int64_t>::argsort_next\<close>.
  At the target axis the two differ in the output length they hand to the content: the
  length of the carried content for \<open>sort_next\<close>, \<open>maxnextparents + 1\<close> for
  \<open>argsort_next\<close>.
\<close>

fun sort_next64 ::
  "'c Content \<Rightarrow> Kernels \<Rightarrow> 'c content \<Rightarrow> int \<Rightarrow> index \<Rightarrow> index \<Rightarrow> int \<Rightarrow> bool \<Rightarrow> bool \<Rightarrow> bool
    \<Rightarrow> exception + 'c content" where
  "sort_next64 C K (ListOffsetArray T this_offsets this_content)
       negaxis starts parents outlength ascending stable' keepdims =
     (let branchdepth = branch_depth C (ListOffsetArray T this_offsets this_content);
          cls = classname (ListOffsetArray T this_offsets this_content) in
      if \<not> fst branchdepth \<and> negaxis = snd branchdepth then
        bind_exn (check_parents_length this_offsets parents) (\<lambda>_.
          bind_exn (nonlocal_prepare K cls this_offsets parents outlength) (\<lambda>p.
          bind_exn (content_carry C this_content (p_nextcarry p)) (\<lambda>nextcontent.
          bind_exn (content_sort_next C nextcontent (negaxis - 1)
                      (p_nextstarts p) (p_nextparents p) (int (content_length C nextcontent))
                      ascending stable' False) (\<lambda>outcontent.
          bind_exn (Index64_new (p_nextlen p)) (\<lambda>_.
          let (err5, outcarry) =
                awkward_listoffsetarray_local_preparenext_64 K (p_nextcarry p) (p_nextlen p) in
          bind_exn (handle_error err5 cls) (\<lambda>_.
          bind_exn (content_carry C outcontent (Index64_filled (p_nextlen p) outcarry))
            (\<lambda>outcontent.
          bind_exn (ListOffsetArrayOf I64 this_offsets outcontent) (\<lambda>out.
          Inr (if keepdims then RegularArray out (length_array out) else out)))))))))
      else
        let (err1, globalstart, globalstop) =
              awkward_listoffsetarray_reduce_global_startstop_64 this_offsets
                (int (length this_offsets) - 1) in
        bind_exn (handle_error err1 cls) (\<lambda>_.
        bind_exn (Index64_new (globalstop - globalstart)) (\<lambda>_.
        let (err2, nextparents) =
              awkward_listoffsetarray_reduce_local_nextparents_64 this_offsets
                (int (length this_offsets) - 1) in
        bind_exn (handle_error err2 cls) (\<lambda>_.
        bind_exn (content_getitem_range_nowrap C this_content globalstart globalstop)
          (\<lambda>trimmed.
        bind_exn (content_sort_next C trimmed negaxis
                    (make_starts this_offsets)
                    (Index64_filled (globalstop - globalstart) nextparents)
                    (int (length this_offsets) - 1) ascending stable' False) (\<lambda>outcontent.
        bind_exn (ListOffsetArrayOf I64 this_offsets outcontent) (\<lambda>out.
        Inr (if keepdims then RegularArray out (length_array out) else out))))))))"

fun argsort_next64 ::
  "'c Content \<Rightarrow> Kernels \<Rightarrow> 'c content \<Rightarrow> int \<Rightarrow> index \<Rightarrow> index \<Rightarrow> int \<Rightarrow> bool \<Rightarrow> bool \<Rightarrow> bool
    \<Rightarrow> exception + 'c content" where
  "argsort_next64 C K (ListOffsetArray T this_offsets this_content)
       negaxis starts parents outlength ascending stable' keepdims =
     (let branchdepth = branch_depth C (ListOffsetArray T this_offsets this_content);
          cls = classname (ListOffsetArray T this_offsets this_content) in
      if \<not> fst branchdepth \<and> negaxis = snd branchdepth then
        bind_exn (check_parents_length this_offsets parents) (\<lambda>_.
          bind_exn (nonlocal_prepare K cls this_offsets parents outlength) (\<lambda>p.
          bind_exn (content_carry C this_content (p_nextcarry p)) (\<lambda>nextcontent.
          bind_exn (content_argsort_next C nextcontent (negaxis - 1)
                      (p_nextstarts p) (p_nextparents p) (p_maxnextparents p + 1)
                      ascending stable' False) (\<lambda>outcontent.
          bind_exn (Index64_new (p_nextlen p)) (\<lambda>_.
          let (err5, outcarry) =
                awkward_listoffsetarray_local_preparenext_64 K (p_nextcarry p) (p_nextlen p) in
          bind_exn (handle_error err5 cls) (\<lambda>_.
          bind_exn (content_carry C outcontent (Index64_filled (p_nextlen p) outcarry))
            (\<lambda>outcontent.
          bind_exn (ListOffsetArrayOf I64 this_offsets outcontent) (\<lambda>out.
          Inr (if keepdims then RegularArray out (length_array out) else out)))))))))
      else
        let (err1, globalstart, globalstop) =
              awkward_listoffsetarray_reduce_global_startstop_64 this_offsets
                (int (length this_offsets) - 1) in
        bind_exn (handle_error err1 cls) (\<lambda>_.
        bind_exn (Index64_new (globalstop - globalstart)) (\<lambda>_.
        let (err2, nextparents) =
              awkward_listoffsetarray_reduce_local_nextparents_64 this_offsets
                (int (length this_offsets) - 1) in
        bind_exn (handle_error err2 cls) (\<lambda>_.
        bind_exn (content_getitem_range_nowrap C this_content globalstart globalstop)
          (\<lambda>trimmed.
        bind_exn (content_argsort_next C trimmed negaxis
                    (make_starts this_offsets)
                    (Index64_filled (globalstop - globalstart) nextparents)
                    (int (length this_offsets) - 1) ascending stable' False) (\<lambda>outcontent.
        bind_exn (ListOffsetArrayOf I64 this_offsets outcontent) (\<lambda>out.
        Inr (if keepdims then RegularArray out (length_array out) else out))))))))"

text \<open>
  \<open>sort_next\<close> and \<open>argsort_next\<close> of the list layer for any offset width: the
  specialisation when the width is 64 bits, and otherwise the generic template (lines
  1686-1702 and 1837-1853), which converts with \<open>toListOffsetArray64(true)\<close> and calls the
  method of the 64-bit array it has built.
\<close>

fun sort_next ::
  "'c Content \<Rightarrow> Kernels \<Rightarrow> 'c content \<Rightarrow> int \<Rightarrow> index \<Rightarrow> index \<Rightarrow> int \<Rightarrow> bool \<Rightarrow> bool \<Rightarrow> bool
    \<Rightarrow> exception + 'c content" where
  "sort_next C K (ListOffsetArray T this_offsets this_content)
       negaxis starts parents outlength ascending stable' keepdims =
     (if T = I64 then
        sort_next64 C K (ListOffsetArray T this_offsets this_content)
          negaxis starts parents outlength ascending stable' keepdims
      else
        bind_exn (toListOffsetArray64 C K (ListOffsetArray T this_offsets this_content) True)
          (\<lambda>converted.
        sort_next64 C K converted negaxis starts parents outlength ascending stable' keepdims))"

fun argsort_next ::
  "'c Content \<Rightarrow> Kernels \<Rightarrow> 'c content \<Rightarrow> int \<Rightarrow> index \<Rightarrow> index \<Rightarrow> int \<Rightarrow> bool \<Rightarrow> bool \<Rightarrow> bool
    \<Rightarrow> exception + 'c content" where
  "argsort_next C K (ListOffsetArray T this_offsets this_content)
       negaxis starts parents outlength ascending stable' keepdims =
     (if T = I64 then
        argsort_next64 C K (ListOffsetArray T this_offsets this_content)
          negaxis starts parents outlength ascending stable' keepdims
      else
        bind_exn (toListOffsetArray64 C K (ListOffsetArray T this_offsets this_content) True)
          (\<lambda>converted.
        argsort_next64 C K converted negaxis starts parents outlength ascending stable' keepdims))"

subsection \<open>Combinations and flattening\<close>

fun combinations ::
  "'c Content \<Rightarrow> Kernels \<Rightarrow> 'c content \<Rightarrow> int \<Rightarrow> bool \<Rightarrow> RecordLookup \<Rightarrow> Parameters \<Rightarrow> int \<Rightarrow> int
    \<Rightarrow> exception + 'c content" where
  "combinations C K (ListOffsetArray T this_offsets this_content)
       n replacement recordlookup parameters axis depth =
     (let this = ListOffsetArray T this_offsets this_content; cls = classname this in
      if n < 1 then Inl (invalid_argument ''in combinations, 'n' must be at least 1'')
      else
        bind_exn (axis_wrap_if_negative C this axis) (\<lambda>toaxis.
        if toaxis = depth then combinations_axis0 C this n replacement recordlookup parameters
        else if toaxis = depth + 1 then
          let starts = make_starts this_offsets;
              stops = make_stops this_offsets in
          bind_exn (Index64_new (length_array this + 1)) (\<lambda>_.
          let (err1, totallen, offsets) =
                awkward_listarray_combinations_length_64 K n replacement starts stops
                  (length_array this) in
          bind_exn (handle_error err1 cls) (\<lambda>_.
          bind_exn (Index64_new totallen) (\<lambda>_.
          let (err2, tocarry) =
                awkward_listarray_combinations_64 K n replacement starts stops
                  (length_array this) in
          bind_exn (handle_error err2 cls) (\<lambda>_.
          bind_exn (collect (map (\<lambda>j. content_carry C this_content
                                         (Index64_filled totallen (tocarry j)))
                              [0..<nat n])) (\<lambda>contents.
          let recordarray = RecordArray parameters contents recordlookup in
          ListOffsetArrayOf I64 (Index64_filled (length_array this + 1) offsets)
            recordarray)))))
        else
          bind_exn (toListOffsetArray64 C K this True) (\<lambda>compact.
          bind_exn (content_combinations C (content_of compact) n replacement recordlookup
                      parameters axis (depth + 1)) (\<lambda>next.
          ListOffsetArrayOf I64 (offsets_of compact) next))))"

fun offsets_and_flattened ::
  "'c Content \<Rightarrow> Kernels \<Rightarrow> 'c content \<Rightarrow> int \<Rightarrow> int \<Rightarrow> exception + (index \<times> 'c content)" where
  "offsets_and_flattened C K (ListOffsetArray T this_offsets this_content) axis depth =
     (let this = ListOffsetArray T this_offsets this_content; cls = classname this in
      bind_exn (axis_wrap_if_negative C this axis) (\<lambda>toaxis.
      if toaxis = depth then Inl (invalid_argument ''axis=0 not allowed for flatten'')
      else if toaxis = depth + 1 then
        bind_exn (toListOffsetArray64 C K this True) (\<lambda>listoffsetarray.
        Inr (offsets_of listoffsetarray, content_of listoffsetarray))
      else
        bind_exn (content_offsets_and_flattened C this_content axis (depth + 1)) (\<lambda>pair.
        let inneroffsets = fst pair in
        if length inneroffsets = 0 then
          bind_exn (ListOffsetArrayOf T this_offsets (snd pair)) (\<lambda>out. Inr ([], out))
        else
          bind_exn (Index64_new (int (length this_offsets))) (\<lambda>_.
          let (err, tooffsets) =
                awkward_listoffsetarray_flatten_offsets_64 K this_offsets
                  (int (length this_offsets)) inneroffsets (int (length inneroffsets)) in
          bind_exn (handle_error err cls) (\<lambda>_.
          bind_exn (ListOffsetArrayOf I64
                      (Index64_filled (int (length this_offsets)) tooffsets) (snd pair))
            (\<lambda>out. Inr ([], out)))))))"

section \<open>An implementation of the interfaces, for evaluating the model\<close>

text \<open>
  The theorems below hold for every \<open>Content\<close> and every \<open>Kernels\<close>. To evaluate the
  model on concrete layouts they are instantiated with a small implementation: the content
  is a flat array of integers that reduces by summing and is already sorted, and the
  kernels follow the outline of section 4.4 of the spec (\<open>nextparents = parent * maxcount +
  slot\<close>, elements ordered by slot first; a slot of \<open>distincts\<close> is \<open>-1\<close> when it is absent).
\<close>

definition flat_Content :: "int list Content" where
  "flat_Content = \<lparr>
     content_length = (\<lambda>c. case c of Other xs \<Rightarrow> length xs | _ \<Rightarrow> 0),
     content_branch_depth = (\<lambda>c. (False, 1)),
     content_carry = (\<lambda>c ix. case c of
         Other xs \<Rightarrow>
           (if \<forall>i\<in>set ix. 0 \<le> i \<and> i < int (length xs)
            then Inr (Other (map (\<lambda>i. xs ! nat i) ix))
            else Inl (kernel_error ''NumpyArray'' ''index out of range'' None None))
       | _ \<Rightarrow> Inl (runtime_error ''not a flat array'')),
     content_getitem_range_nowrap = (\<lambda>c lo hi. case c of
         Other xs \<Rightarrow> Inr (Other (take (nat (hi - lo)) (drop (nat lo) xs)))
       | _ \<Rightarrow> Inl (runtime_error ''not a flat array'')),
     content_reduce_next = (\<lambda>c reducer negaxis starts parents outlength mask' keepdims. case c of
         Other xs \<Rightarrow>
           Inr (Other (map (\<lambda>j. sum_list (map fst (filter (\<lambda>xp. snd xp = int j) (zip xs parents))))
                         [0..<nat outlength]))
       | _ \<Rightarrow> Inl (runtime_error ''not a flat array'')),
     content_sort_next = (\<lambda>c negaxis starts parents outlength ascending stable' keepdims. Inr c),
     content_argsort_next = (\<lambda>c negaxis starts parents outlength ascending stable' keepdims.
        case c of Other xs \<Rightarrow> Inr (Other (map int [0..<length xs]))
       | _ \<Rightarrow> Inl (runtime_error ''not a flat array'')),
     content_combinations = (\<lambda>c n replacement recordlookup parameters axis depth.
        Inl (invalid_argument ''axis out of range'')),
     content_offsets_and_flattened = (\<lambda>c axis depth. Inl (invalid_argument ''axis out of range'')),
     axis_wrap_if_negative = (\<lambda>c axis.
        if axis < 0 then Inl (runtime_error ''negative axis'') else Inr axis),
     combinations_axis0 = (\<lambda>c n replacement recordlookup parameters.
        Inl (runtime_error ''not a flat array''))
   \<rparr>"

definition example_Kernels :: Kernels where
  "example_Kernels = \<lparr>
     awkward_listoffsetarray_reduce_nonlocal_maxcount_offsetscopy_64 = (\<lambda>offsets len.
       (success,
        fold max (map (\<lambda>i. offsets ! (i + 1) - offsets ! i) [0..<nat len]) 0,
        \<lambda>i. offsets ! i)),
     awkward_listoffsetarray_reduce_nonlocal_preparenext_64 =
       (\<lambda>nextlen distinctslen offsetscopy offsets len parents maxcount.
         let slots = concat (map (\<lambda>c. concat (map (\<lambda>i.
                        if offsets ! i + int c < offsets ! (i + 1)
                        then [(offsets ! i + int c, parents ! i * maxcount + int c)] else [])
                      [0..<nat len])) [0..<nat maxcount])
         in (success, (\<lambda>k. fst (slots ! k)), (\<lambda>k. snd (slots ! k)),
             fold max (map snd slots) 0,
             (\<lambda>q. if int q \<in> set (map snd slots) then int q else - 1))),
     awkward_listoffsetarray_reduce_nonlocal_nextstarts_64 = (\<lambda>nextparents nextlen.
       (success, \<lambda>p. int (length (takeWhile (\<lambda>x. x \<noteq> int p) nextparents)))),
     awkward_listoffsetarray_reduce_nonlocal_findgaps_64 = (\<lambda>parents lenparents.
       (success, \<lambda>j. int (length (filter (\<lambda>i. int i \<notin> set parents) [0..<j])))),
     awkward_listoffsetarray_reduce_nonlocal_outstartsstops_64 =
       (\<lambda>distincts lendistincts gaps outlength.
         let maxcount = (if outlength = 0 then 0 else lendistincts div outlength)
         in (success,
             (\<lambda>j. int j * maxcount),
             (\<lambda>j. int j * maxcount
                  + int (length (filter (\<lambda>c. distincts ! (j * nat maxcount + c) \<noteq> - 1)
                                   [0..<nat maxcount]))))),
     awkward_listoffsetarray_local_preparenext_64 = (\<lambda>fromindex len.
       (success,
        \<lambda>m. int (length (takeWhile (\<lambda>x. x \<noteq> fold min fromindex (hd fromindex) + int m)
                            fromindex)))),
     awkward_listarray_broadcast_tooffsets64 = (\<lambda>offsets offsetslength starts stops lencontent.
       (success,
        \<lambda>k. concat (map (\<lambda>i. map int [nat (starts ! i)..<nat (stops ! i)])
                       [0..<nat offsetslength - 1]) ! k)),
     awkward_listarray_combinations_length_64 = (\<lambda>n replacement starts stops len.
       (success, 0, \<lambda>i. 0)),
     awkward_listarray_combinations_64 = (\<lambda>n replacement starts stops len.
       (success, \<lambda>j i. 0)),
     awkward_listoffsetarray_flatten_offsets_64 =
       (\<lambda>offsets offsetslength inneroffsets inneroffsetslength.
         (success, \<lambda>i. inneroffsets ! nat (offsets ! i)))
   \<rparr>"

section \<open>Auxiliary facts\<close>

lemma bind_exn_eq_Inr: "(bind_exn m f = Inr y) = (\<exists>x. m = Inr x \<and> f x = Inr y)"
  by (cases m) simp_all

lemma handle_error_eq_Inr: "(handle_error err cls = Inr u) = (err = success)"
  by (cases err) (simp_all add: handle_error_def)

lemma Index64_new_eq_Inr: "(Index64_new n = Inr u) = (0 \<le> n)"
  by (simp add: Index64_new_def)

lemma length_Index64_filled: "length (Index64_filled n b) = nat n"
  by (simp add: Index64_filled_def)

lemma nth_Index64_filled: "i < nat n \<Longrightarrow> Index64_filled n b ! i = b i"
  by (simp add: Index64_filled_def)

lemma compact_kernel_call:
  assumes "offs \<noteq> []"
  shows "(let len = int (length offs) - 1 in
      bind_exn (Index64_new (len + 1)) (\<lambda>_.
      let (err, out) = awkward_listoffsetarray_compact_offsets64 offs len in
      bind_exn (handle_error err cls) (\<lambda>_.
      Inr (Index64_filled (len + 1) out))))
   = Inr (map (\<lambda>i. offs ! i - offs ! 0) [0..<length offs])"
  using assms
  by (simp add: Index64_new_def awkward_listoffsetarray_compact_offsets64_def
      handle_error_def Index64_filled_def)

lemma compact_offsets64_unchanged:
  assumes "offs \<noteq> []" and "\<not> start_at_zero \<or> offs ! 0 = 0"
  shows "compact_offsets64 (ListOffsetArray I64 offs c) start_at_zero = Inr offs"
  using assms by (auto simp add: Index_getitem_at_nowrap_def)

lemma compact_offsets64_shifted:
  assumes "offs \<noteq> []" and "T \<noteq> I64 \<or> (start_at_zero \<and> offs ! 0 \<noteq> 0)"
  shows "compact_offsets64 (ListOffsetArray T offs c) start_at_zero
           = Inr (map (\<lambda>i. offs ! i - offs ! 0) [0..<length offs])"
  using assms compact_kernel_call [of offs]
  by (auto simp add: Index_getitem_at_nowrap_def)

lemma nonlocal_prepare_nextlen:
  "nonlocal_prepare K cls offs parents outlength = Inr p \<Longrightarrow> 0 \<le> p_nextlen p"
  by (auto simp add: nonlocal_prepare_def bind_exn_eq_Inr Index64_new_eq_Inr Let_def
      case_prod_beta)

lemma broadcast_tooffsets64_width:
  assumes "broadcast_tooffsets64 C K (ListOffsetArray T offs c) offsets = Inr r"
  shows "\<exists>c'. r = ListOffsetArray I64 offsets c'"
  using assms
  by (auto simp add: bind_exn_eq_Inr ListOffsetArrayOf_def Let_def case_prod_beta
      split: if_splits)

lemma toListOffsetArray64_width:
  assumes "toListOffsetArray64 C K (ListOffsetArray T offs c) start_at_zero = Inr r"
  shows "\<exists>offsets c'. r = ListOffsetArray I64 offsets c'"
proof (cases "T = I64 \<and> (\<not> start_at_zero \<or> offs ! 0 = 0)")
  case True
  with assms show ?thesis
    by (auto simp add: bind_exn_eq_Inr ListOffsetArrayOf_def Index_getitem_at_nowrap_def
        split: if_splits)
next
  case False
  with assms obtain offsets where
    "broadcast_tooffsets64 C K (ListOffsetArray T offs c) offsets = Inr r"
    by (auto simp add: bind_exn_eq_Inr Index_getitem_at_nowrap_def
        simp del: broadcast_tooffsets64.simps compact_offsets64.simps
        split: if_splits)
  then show ?thesis using broadcast_tooffsets64_width by blast
qed

lemma count_below_step:
  "int (length (filter (\<lambda>p. p < j + 1) ps)) - int (length (filter (\<lambda>p. p < j) ps))
     = int (length (filter (\<lambda>p. p = (j::int)) ps))"
  by (induction ps) auto

lemma local_outoffsets_step:
  assumes "0 \<le> j"
  shows "snd (awkward_listoffsetarray_reduce_local_outoffsets_64 parents n outlength) (nat (j + 1))
         - snd (awkward_listoffsetarray_reduce_local_outoffsets_64 parents n outlength) (nat j)
         = int (card {k. k < length parents \<and> parents ! k = j})"
proof -
  have "int (length (filter (\<lambda>p. p = j) parents))
          = int (card {k. k < length parents \<and> parents ! k = j})"
    by (simp add: length_filter_conv_card)
  with assms count_below_step [of j parents] show ?thesis
    by (simp add: awkward_listoffsetarray_reduce_local_outoffsets_64_def)
qed

lemma local_nextparents_assigns:
  assumes "sorted offs" and "i + 1 < length offs"
    and "offs ! i \<le> offs ! 0 + int k" and "offs ! 0 + int k < offs ! (i + 1)"
  shows "snd (awkward_listoffsetarray_reduce_local_nextparents_64 offs (int (length offs) - 1)) k
           = int i"
proof -
  let ?P = "\<lambda>i. offs ! i \<le> offs ! 0 + int k \<and> offs ! 0 + int k < offs ! (i + 1)"
  let ?n = "nat (int (length offs) - 1)"
  have in_range: "i < ?n" using assms(2) by simp
  have before: "\<forall>j<i. \<not> ?P j"
  proof (intro allI impI)
    fix j assume "j < i"
    then have "offs ! (j + 1) \<le> offs ! i"
      using assms(1,2) by (intro sorted_nth_mono) auto
    with assms(3) show "\<not> ?P j" by simp
  qed
  have "find ?P [0..<?n] = Some i"
    unfolding find_Some_iff
    using in_range assms(3,4) before by (intro exI [of _ i]) simp
  then show ?thesis
    by (simp add: awkward_listoffsetarray_reduce_local_nextparents_64_def)
qed

section \<open>Construction and length\<close>

text \<open>
  Claim C9. The constructor rejects an offsets index of length 0 with an invalid-argument
  error; every array it returns has at least one offset, and its \<open>length()\<close> is the number
  of offsets minus one: \<open>N\<close> sublists for an offsets index of length \<open>N + 1\<close>.
\<close>

theorem constructor_invariant:
  "(length offsets = 0 \<longrightarrow>
      ListOffsetArrayOf T offsets c
        = Inl (invalid_argument ''ListOffsetArray offsets length must be at least 1''))
   \<and> (\<forall>a. ListOffsetArrayOf T offsets c = Inr a \<longrightarrow>
          1 \<le> length (offsets_of a)
          \<and> length_array a = int (length (offsets_of a)) - 1
          \<and> (\<forall>N. length offsets = N + 1 \<longrightarrow> length_array a = int N))"
  by (cases offsets) (auto simp: ListOffsetArrayOf_def)

theorem constructor_invariant_witness:
  "ListOffsetArrayOf I64 [] (Other [1, 2, 3 :: int])
     = Inl (invalid_argument ''ListOffsetArray offsets length must be at least 1'')
   \<and> ListOffsetArrayOf I64 [0, 2, 3] (Other [1, 2, 3 :: int])
     = Inr (ListOffsetArray I64 [0, 2, 3] (Other [1, 2, 3]))
   \<and> 1 \<le> length (offsets_of (ListOffsetArray I64 [0, 2, 3] (Other [1, 2, 3 :: int])))
   \<and> length_array (ListOffsetArray I64 [0, 2, 3] (Other [1, 2, 3 :: int])) = 2"
  using constructor_invariant [of "[]" I64 "Other [1, 2, 3 :: int]"]
        constructor_invariant [of "[0, 2, 3]" I64 "Other [1, 2, 3 :: int]"]
  by (simp add: ListOffsetArrayOf_def)

section \<open>Compact offsets\<close>

text \<open>
  Claim C6, as amended. For an offsets index of length \<open>N + 1\<close>: when \<open>compact_offsets64\<close>
  is called with \<open>start_at_zero = true\<close>, or on a list layer whose offsets are not 64 bits
  wide, it returns an index of the same length with \<open>out[i] = offsets[i] - offsets[0]\<close> for
  every \<open>i\<close> in \<open>[0, N]\<close>, which starts at zero. For every width and flag the operation
  is idempotent, and a 64-bit index that already starts at zero is returned unchanged.
\<close>

theorem compact_offsets64_shift:
  assumes "length offs = N + 1"
  shows "(start_at_zero \<or> T \<noteq> I64 \<longrightarrow>
           (\<exists>out. compact_offsets64 (ListOffsetArray T offs c) start_at_zero = Inr out
              \<and> length out = N + 1
              \<and> (\<forall>i\<le>N. out ! i = offs ! i - offs ! 0)
              \<and> out ! 0 = 0))
       \<and> (\<exists>out. compact_offsets64 (ListOffsetArray T offs c) start_at_zero = Inr out
              \<and> compact_offsets64 (ListOffsetArray I64 out c') start_at_zero = Inr out)
       \<and> (T = I64 \<and> offs ! 0 = 0 \<longrightarrow>
             compact_offsets64 (ListOffsetArray T offs c) start_at_zero = Inr offs)"
proof -
  from assms have ne: "offs \<noteq> []" by auto
  let ?shifted = "map (\<lambda>i. offs ! i - offs ! 0) [0..<length offs]"
  have len: "length ?shifted = N + 1" using assms by simp
  have nth: "\<forall>i\<le>N. ?shifted ! i = offs ! i - offs ! 0"
    using assms by (auto simp del: upt_Suc)
  have zero: "?shifted ! 0 = 0" using assms by (simp del: upt_Suc)
  have sne: "?shifted \<noteq> []" using len by auto
  have same: "offs ! 0 = 0 \<Longrightarrow> ?shifted = offs" by (simp add: map_nth)
  have first: "start_at_zero \<or> T \<noteq> I64 \<longrightarrow>
           (\<exists>out. compact_offsets64 (ListOffsetArray T offs c) start_at_zero = Inr out
              \<and> length out = N + 1
              \<and> (\<forall>i\<le>N. out ! i = offs ! i - offs ! 0)
              \<and> out ! 0 = 0)"
  proof
    assume flag: "start_at_zero \<or> T \<noteq> I64"
    have "compact_offsets64 (ListOffsetArray T offs c) start_at_zero = Inr ?shifted"
    proof (cases "T = I64 \<and> offs ! 0 = 0")
      case True
      then have "compact_offsets64 (ListOffsetArray T offs c) start_at_zero = Inr offs"
        using compact_offsets64_unchanged [OF ne, of start_at_zero c] by blast
      with True same show ?thesis by metis
    next
      case False
      with flag have "T \<noteq> I64 \<or> (start_at_zero \<and> offs ! 0 \<noteq> 0)" by blast
      then show ?thesis by (rule compact_offsets64_shifted [OF ne])
    qed
    with len nth zero show "\<exists>out. compact_offsets64 (ListOffsetArray T offs c) start_at_zero = Inr out
              \<and> length out = N + 1
              \<and> (\<forall>i\<le>N. out ! i = offs ! i - offs ! 0)
              \<and> out ! 0 = 0"
      by blast
  qed
  have second: "\<exists>out. compact_offsets64 (ListOffsetArray T offs c) start_at_zero = Inr out
              \<and> compact_offsets64 (ListOffsetArray I64 out c') start_at_zero = Inr out"
  proof (cases "T = I64 \<and> (\<not> start_at_zero \<or> offs ! 0 = 0)")
    case True
    then have "compact_offsets64 (ListOffsetArray T offs c) start_at_zero = Inr offs"
      using compact_offsets64_unchanged [OF ne, of start_at_zero c] by blast
    moreover from True
    have "compact_offsets64 (ListOffsetArray I64 offs c') start_at_zero = Inr offs"
      using compact_offsets64_unchanged [OF ne, of start_at_zero c'] by blast
    ultimately show ?thesis by blast
  next
    case False
    then have "T \<noteq> I64 \<or> (start_at_zero \<and> offs ! 0 \<noteq> 0)" by blast
    then have "compact_offsets64 (ListOffsetArray T offs c) start_at_zero = Inr ?shifted"
      by (rule compact_offsets64_shifted [OF ne])
    moreover from zero
    have "compact_offsets64 (ListOffsetArray I64 ?shifted c') start_at_zero = Inr ?shifted"
      using compact_offsets64_unchanged [OF sne, of start_at_zero c'] by blast
    ultimately show ?thesis by blast
  qed
  have third: "T = I64 \<and> offs ! 0 = 0 \<longrightarrow>
             compact_offsets64 (ListOffsetArray T offs c) start_at_zero = Inr offs"
    using compact_offsets64_unchanged [OF ne, of start_at_zero c] by blast
  from first second third show ?thesis by blast
qed

theorem compact_offsets64_shift_witness:
  "length [2, 5, 5, 9 :: int] = 3 + 1
   \<and> compact_offsets64 (ListOffsetArray I32 [2, 5, 5, 9] (Other ())) True = Inr [0, 3, 3, 7]
   \<and> [0, 3, 3, 7] ! 3 = [2, 5, 5, 9] ! 3 - [2, 5, 5, 9 :: int] ! 0
   \<and> compact_offsets64 (ListOffsetArray I64 [0, 3, 3, 7] (Other ())) True = Inr [0, 3, 3, 7]
   \<and> compact_offsets64 (ListOffsetArray I64 [0, 3, 3, 7] (Other ())) False = Inr [0, 3, 3, 7]"
proof -
  have h: "length [2, 5, 5, 9 :: int] = 3 + 1" by simp
  have h': "length [0, 3, 3, 7 :: int] = 3 + 1" by simp
  have v: "compact_offsets64 (ListOffsetArray I32 [2, 5, 5, 9] (Other ())) True = Inr [0, 3, 3, 7]"
    by code_simp
  note t = compact_offsets64_shift [OF h, where T = I32 and start_at_zero = True
      and c = "Other ()" and c' = "Other ()"]
  have flag: "True \<or> I32 \<noteq> I64" by simp
  from t [THEN conjunct1, THEN mp, OF flag] v
  have nth: "\<forall>i\<le>3. [0, 3, 3, 7] ! i = [2, 5, 5, 9] ! i - [2, 5, 5, 9 :: int] ! 0"
    by (elim exE conjE) (simp del: compact_offsets64.simps)
  have three: "[0, 3, 3, 7] ! 3 = [2, 5, 5, 9] ! 3 - [2, 5, 5, 9 :: int] ! 0"
    by (rule nth [rule_format]) simp
  from t [THEN conjunct2, THEN conjunct1] v
  have again: "compact_offsets64 (ListOffsetArray I64 [0, 3, 3, 7] (Other ())) True
                 = Inr [0, 3, 3, 7]"
    by (elim exE conjE) (simp del: compact_offsets64.simps)
  have zero: "I64 = I64 \<and> [0, 3, 3, 7 :: int] ! 0 = 0" by simp
  have same: "compact_offsets64 (ListOffsetArray I64 [0, 3, 3, 7] (Other ())) False
                = Inr [0, 3, 3, 7]"
    by (rule compact_offsets64_shift [OF h', where T = I64 and start_at_zero = False
          and c = "Other ()" and c' = "Other ()", THEN conjunct2, THEN conjunct2, THEN mp,
          OF zero])
  show ?thesis by (rule conjI [OF h conjI [OF v conjI [OF three conjI [OF again same]]]])
qed

text \<open>
  The claim as first stated has no condition on the flag. With \<open>start_at_zero = false\<close> the
  specialisation for 64-bit offsets returns the offsets as they are, so \<open>out[0]\<close> is
  \<open>offsets[0]\<close> and not zero.
\<close>

theorem compact_offsets64_counterexample:
  "compact_offsets64 (ListOffsetArray I64 [1, 3] (Other ())) False = Inr [1, 3]
   \<and> [1, 3] ! 0 \<noteq> ([1, 3] ! 0 - [1, 3] ! 0 :: int)"
  by simp

section \<open>Element access\<close>

text \<open>
  Claim C7, as amended. For an index \<open>i\<close> of the list layer with
  \<open>offsets[i] \<noteq> offsets[i+1]\<close>: \<open>getitem_at_nowrap(i)\<close> fails, carrying the offending
  index \<open>i\<close>, whenever \<open>offsets[i] < 0\<close>, \<open>offsets[i] > offsets[i+1]\<close> or
  \<open>offsets[i+1] > content.length\<close>, and otherwise returns the content range
  \<open>[offsets[i], offsets[i+1])\<close>.
\<close>

theorem getitem_at_nowrap_checks:
  assumes "0 \<le> at" and "at + 1 < int (length offs)"
    and "offs ! nat at \<noteq> offs ! nat (at + 1)"
  shows "(offs ! nat at < 0 \<or> offs ! nat at > offs ! nat (at + 1)
            \<or> offs ! nat (at + 1) > int (content_length C c)
          \<longrightarrow> (\<exists>msg. getitem_at_nowrap C (ListOffsetArray T offs c) at
                 = Inl (kernel_error (classname (ListOffsetArray T offs c)) msg
                          kSliceNone (Some at))))
       \<and> (\<not> (offs ! nat at < 0 \<or> offs ! nat at > offs ! nat (at + 1)
               \<or> offs ! nat (at + 1) > int (content_length C c))
          \<longrightarrow> getitem_at_nowrap C (ListOffsetArray T offs c) at
                = content_getitem_range_nowrap C c (offs ! nat at) (offs ! nat (at + 1)))"
  using assms
  by (simp add: Index_getitem_at_nowrap_def handle_error_def Let_def)

theorem getitem_at_nowrap_checks_witness:
  "getitem_at_nowrap flat_Content (ListOffsetArray I64 [0, 2, 9] (Other [1, 2, 3])) 0
     = Inr (Other [1, 2])
   \<and> (\<exists>msg. getitem_at_nowrap flat_Content (ListOffsetArray I64 [0, 2, 9] (Other [1, 2, 3])) 1
         = Inl (kernel_error ''ListOffsetArray64'' msg kSliceNone (Some 1)))"
  using getitem_at_nowrap_checks [of 0 "[0, 2, 9]" flat_Content "Other [1, 2, 3]" I64]
        getitem_at_nowrap_checks [of 1 "[0, 2, 9]" flat_Content "Other [1, 2, 3]" I64]
  by (simp add: flat_Content_def)

text \<open>
  The claim as first stated also covers an empty sublist. There the offsets are replaced by
  \<open>[0, 0)\<close> before the checks, so a negative shared offset raises nothing.
\<close>

theorem getitem_at_nowrap_counterexample:
  "getitem_at_nowrap flat_Content (ListOffsetArray I64 [-5, -5] (Other [1, 2, 3])) 0
     = Inr (Other [])"
  by (simp add: flat_Content_def Index_getitem_at_nowrap_def)

text \<open>
  Claim C10. For every index \<open>i\<close> of the list layer with \<open>offsets[i] = offsets[i+1]\<close>,
  \<open>getitem_at_nowrap(i)\<close> raises none of the structural errors and returns the content
  range \<open>[0, 0)\<close>, whatever the shared offset is.
\<close>

theorem getitem_at_nowrap_empty_sublist:
  assumes "0 \<le> at" and "at + 1 < int (length offs)"
    and "offs ! nat at = offs ! nat (at + 1)"
  shows "getitem_at_nowrap C (ListOffsetArray T offs c) at
           = content_getitem_range_nowrap C c 0 0"
  using assms by (simp add: Index_getitem_at_nowrap_def)

theorem getitem_at_nowrap_empty_sublist_witness:
  "getitem_at_nowrap flat_Content (ListOffsetArray I64 [-5, -5, 9, 9] (Other [1, 2, 3])) 0
     = Inr (Other [])
   \<and> getitem_at_nowrap flat_Content (ListOffsetArray I64 [-5, -5, 9, 9] (Other [1, 2, 3])) 2
     = Inr (Other [])"
  using getitem_at_nowrap_empty_sublist [of 0 "[-5, -5, 9, 9]" flat_Content I64 "Other [1, 2, 3]"]
        getitem_at_nowrap_empty_sublist [of 2 "[-5, -5, 9, 9]" flat_Content I64 "Other [1, 2, 3]"]
  by (simp add: flat_Content_def)


section \<open>Argument misuse\<close>

text \<open>
  Claim C8. Argument misuse is rejected at entry with an invalid-argument error and no
  output: \<open>combinations\<close> with \<open>n < 1\<close>, before anything is allocated;
  \<open>broadcast_tooffsets64\<close> with an offsets index that is empty or does not start at 0;
  \<open>offsets_and_flattened\<close> when the axis is the current depth (axis 0).
\<close>

theorem argument_misuse_rejected:
  "(n < 1 \<longrightarrow>
      combinations C K (ListOffsetArray T offs c) n replacement recordlookup parameters axis depth
        = Inl (invalid_argument ''in combinations, 'n' must be at least 1''))
   \<and> (length offsets = 0 \<or> offsets ! 0 \<noteq> 0 \<longrightarrow>
        broadcast_tooffsets64 C K (ListOffsetArray T offs c) offsets
          = Inl (invalid_argument
                  ''broadcast_tooffsets64 can only be used with offsets that start at 0''))
   \<and> (axis_wrap_if_negative C (ListOffsetArray T offs c) axis = Inr depth \<longrightarrow>
        offsets_and_flattened C K (ListOffsetArray T offs c) axis depth
          = Inl (invalid_argument ''axis=0 not allowed for flatten''))"
  by (simp add: Index_getitem_at_nowrap_def Let_def)

theorem argument_misuse_rejected_witness:
  "combinations flat_Content example_Kernels (ListOffsetArray I64 [0, 2, 3] (Other [1, 2, 3]))
       0 False None [] 1 0
     = Inl (invalid_argument ''in combinations, 'n' must be at least 1'')
   \<and> broadcast_tooffsets64 flat_Content example_Kernels
         (ListOffsetArray I64 [0, 2, 3] (Other [1, 2, 3])) [1, 2]
     = Inl (invalid_argument
             ''broadcast_tooffsets64 can only be used with offsets that start at 0'')
   \<and> broadcast_tooffsets64 flat_Content example_Kernels
         (ListOffsetArray I64 [0, 2, 3] (Other [1, 2, 3])) []
     = Inl (invalid_argument
             ''broadcast_tooffsets64 can only be used with offsets that start at 0'')
   \<and> offsets_and_flattened flat_Content example_Kernels
         (ListOffsetArray I64 [0, 2, 3] (Other [1, 2, 3])) 0 0
     = Inl (invalid_argument ''axis=0 not allowed for flatten'')"
  using argument_misuse_rejected [of 0 flat_Content example_Kernels I64 "[0, 2, 3]"
          "Other [1, 2, 3]" False None "[]" 1 0 "[1, 2]"]
        argument_misuse_rejected [of 0 flat_Content example_Kernels I64 "[0, 2, 3]"
          "Other [1, 2, 3]" False None "[]" 0 0 "[]"]
  by (simp add: flat_Content_def)

section \<open>Reduction\<close>

text \<open>
  Claim C3. In the non-local branch (the content does not branch and \<open>negaxis\<close> is the
  branch depth), \<open>reduce_next\<close>, \<open>sort_next\<close> and \<open>argsort_next\<close> of the 64-bit list
  layer fail with the runtime error of the precondition check whenever
  \<open>offsets.length - 1\<close> differs from \<open>parents.length\<close>. When the two are equal the check
  raises nothing: control reaches the preparation, whose failure, if any, is the method's.
\<close>

theorem nonlocal_length_check:
  assumes "\<not> fst (branch_depth C (ListOffsetArray I64 offs c))"
    and "negaxis = snd (branch_depth C (ListOffsetArray I64 offs c))"
  shows "(int (length offs) - 1 \<noteq> int (length parents) \<longrightarrow>
            reduce_next64 C K (ListOffsetArray I64 offs c)
                reducer negaxis starts parents outlength mask' keepdims
              = Inl (runtime_error ''offsets_.length() - 1 != parents.length()'')
          \<and> sort_next64 C K (ListOffsetArray I64 offs c)
                negaxis starts parents outlength ascending stable' keepdims
              = Inl (runtime_error ''offsets_.length() - 1 != parents.length()'')
          \<and> argsort_next64 C K (ListOffsetArray I64 offs c)
                negaxis starts parents outlength ascending stable' keepdims
              = Inl (runtime_error ''offsets_.length() - 1 != parents.length()''))
       \<and> (int (length offs) - 1 = int (length parents) \<longrightarrow>
            check_parents_length offs parents = Inr ()
          \<and> (\<forall>e. nonlocal_prepare K ''ListOffsetArray64'' offs parents outlength = Inl e \<longrightarrow>
                reduce_next64 C K (ListOffsetArray I64 offs c)
                    reducer negaxis starts parents outlength mask' keepdims = Inl e
              \<and> sort_next64 C K (ListOffsetArray I64 offs c)
                    negaxis starts parents outlength ascending stable' keepdims = Inl e
              \<and> argsort_next64 C K (ListOffsetArray I64 offs c)
                    negaxis starts parents outlength ascending stable' keepdims = Inl e))"
  using assms by (simp add: check_parents_length_def Let_def)

theorem nonlocal_length_check_witness:
  "reduce_next64 flat_Content example_Kernels (ListOffsetArray I64 [0, 2, 3] (Other [1, 2, 3]))
       ReducerSum 2 [0] [0] 1 False False
     = Inl (runtime_error ''offsets_.length() - 1 != parents.length()'')
   \<and> sort_next64 flat_Content example_Kernels (ListOffsetArray I64 [0, 2, 3] (Other [1, 2, 3]))
       2 [0] [0] 1 True True False
     = Inl (runtime_error ''offsets_.length() - 1 != parents.length()'')
   \<and> argsort_next64 flat_Content example_Kernels (ListOffsetArray I64 [0, 2, 3] (Other [1, 2, 3]))
       2 [0] [0] 1 True True False
     = Inl (runtime_error ''offsets_.length() - 1 != parents.length()'')
   \<and> check_parents_length [0, 2, 3] [0, 0] = Inr ()
   \<and> nonlocal_prepare example_Kernels ''ListOffsetArray64'' [0, 2, 3] [0, 0] (- 1) = Inl bad_alloc
   \<and> reduce_next64 flat_Content example_Kernels (ListOffsetArray I64 [0, 2, 3] (Other [1, 2, 3]))
       ReducerSum 2 [0] [0, 0] (- 1) False False
     = Inl bad_alloc"
proof -
  let ?a = "ListOffsetArray I64 [0, 2, 3] (Other [1, 2, 3 :: int])"
  have h1: "\<not> fst (branch_depth flat_Content ?a)"
    by (simp add: flat_Content_def)
  have h2: "2 = snd (branch_depth flat_Content ?a)"
    by (simp add: flat_Content_def)
  have differ: "int (length [0, 2, 3 :: int]) - 1 \<noteq> int (length [0 :: int])" by simp
  have agree: "int (length [0, 2, 3 :: int]) - 1 = int (length [0, 0 :: int])" by simp
  have w: "nonlocal_prepare example_Kernels ''ListOffsetArray64'' [0, 2, 3] [0, 0] (- 1)
             = Inl bad_alloc"
    by code_simp
  note fails = nonlocal_length_check [OF h1 h2, where parents = "[0]" and K = example_Kernels
      and reducer = ReducerSum and starts = "[0]" and outlength = 1 and mask' = False
      and keepdims = False and ascending = True and stable' = True,
      THEN conjunct1, THEN mp, OF differ]
  note passes = nonlocal_length_check [OF h1 h2, where parents = "[0, 0]" and K = example_Kernels
      and reducer = ReducerSum and starts = "[0]" and outlength = "- 1" and mask' = False
      and keepdims = False and ascending = True and stable' = True,
      THEN conjunct2, THEN mp, OF agree]
  note reached = passes [THEN conjunct2, rule_format, OF w, THEN conjunct1]
  show ?thesis
    by (rule conjI [OF fails [THEN conjunct1] conjI [OF fails [THEN conjunct2, THEN conjunct1]
          conjI [OF fails [THEN conjunct2, THEN conjunct2]
            conjI [OF passes [THEN conjunct1] conjI [OF w reached]]]]])
qed

text \<open>
  Claim C1. On a 64-bit list layer whose content does not branch and whose branch depth is
  \<open>negaxis\<close>, \<open>reduce_next\<close> returns a layout exactly when every step succeeds: the
  preparation, the carry of the content by \<open>nextcarry\<close>, the content's \<open>reduce_next\<close>
  with \<open>negaxis - 1\<close>, \<open>nextstarts\<close>, \<open>nextparents\<close> and output length
  \<open>maxnextparents + 1\<close>, and the kernels that compute the gaps and, from \<open>distincts\<close> and
  the gaps, the starts and stops. The result is then the list of those starts and stops,
  each of length \<open>outlength\<close>, over the reduced content, wrapped in a regular layer of size
  1 when \<open>keepdims\<close> is set.
\<close>

theorem reduce_next64_nonlocal:
  assumes "\<not> fst (branch_depth C (ListOffsetArray I64 offs c))"
    and "negaxis = snd (branch_depth C (ListOffsetArray I64 offs c))"
  shows "reduce_next64 C K (ListOffsetArray I64 offs c)
             reducer negaxis starts parents outlength mask' keepdims = Inr out
         \<longleftrightarrow>
         (\<exists>p nextcontent outcontent gaps outstarts outstops.
             int (length offs) - 1 = int (length parents)
           \<and> nonlocal_prepare K ''ListOffsetArray64'' offs parents outlength = Inr p
           \<and> content_carry C c (p_nextcarry p) = Inr nextcontent
           \<and> content_reduce_next C nextcontent reducer (negaxis - 1)
                 (p_nextstarts p) (p_nextparents p) (p_maxnextparents p + 1) mask' False
               = Inr outcontent
           \<and> awkward_listoffsetarray_reduce_nonlocal_findgaps_64 K parents
                 (int (length parents)) = (success, gaps)
           \<and> awkward_listoffsetarray_reduce_nonlocal_outstartsstops_64 K
                 (p_distincts p) (p_maxcount p * outlength)
                 (Index64_filled outlength gaps) outlength = (success, outstarts, outstops)
           \<and> int (length (Index64_filled outlength outstarts)) = outlength
           \<and> int (length (Index64_filled outlength outstops)) = outlength
           \<and> out = (if keepdims
                     then RegularArray
                            (ListArray64 (Index64_filled outlength outstarts)
                               (Index64_filled outlength outstops) outcontent) 1
                     else ListArray64 (Index64_filled outlength outstarts)
                            (Index64_filled outlength outstops) outcontent))"
  using assms
  apply (simp add: check_parents_length_def bind_exn_eq_Inr handle_error_eq_Inr
      Index64_new_eq_Inr length_Index64_filled Let_def case_prod_beta
      del: branch_depth.simps)
  apply (auto simp add: prod_eq_iff)
  done

theorem reduce_next64_nonlocal_witness:
  "\<not> fst (branch_depth flat_Content (ListOffsetArray I64 [0, 2, 3] (Other [1, 2, 3])))
   \<and> 2 = snd (branch_depth flat_Content (ListOffsetArray I64 [0, 2, 3] (Other [1, 2, 3])))
   \<and> reduce_next64 flat_Content example_Kernels (ListOffsetArray I64 [0, 2, 3] (Other [1, 2, 3]))
         ReducerSum 2 [0] [0, 0] 1 False True
       = Inr (RegularArray (ListArray64 [0] [2] (Other [4, 2])) 1)
   \<and> (\<exists>p. nonlocal_prepare example_Kernels ''ListOffsetArray64'' [0, 2, 3] [0, 0] 1 = Inr p
          \<and> p_nextcarry p = [0, 2, 1] \<and> p_nextparents p = [0, 0, 1]
          \<and> p_maxnextparents p = 1 \<and> p_nextstarts p = [0, 2])"
proof -
  have h1: "\<not> fst (branch_depth flat_Content (ListOffsetArray I64 [0, 2, 3] (Other [1, 2, 3])))"
    by (simp add: flat_Content_def)
  have h2: "2 = snd (branch_depth flat_Content (ListOffsetArray I64 [0, 2, 3] (Other [1, 2, 3])))"
    by (simp add: flat_Content_def)
  have v: "reduce_next64 flat_Content example_Kernels
             (ListOffsetArray I64 [0, 2, 3] (Other [1, 2, 3]))
             ReducerSum 2 [0] [0, 0] 1 False True
           = Inr (RegularArray (ListArray64 [0] [2] (Other [4, 2])) 1)"
    by code_simp
  have w: "nonlocal_prepare example_Kernels ''ListOffsetArray64'' [0, 2, 3] [0, 0] 1
           = Inr \<lparr> p_nextlen = 3, p_maxcount = 2, p_nextcarry = [0, 2, 1],
                   p_nextparents = [0, 0, 1], p_maxnextparents = 1, p_distincts = [0, 1],
                   p_nextstarts = [0, 2] \<rparr>"
    by code_simp
  from reduce_next64_nonlocal [OF h1 h2, of example_Kernels ReducerSum "[0]" "[0, 0]" 1 False True
      "RegularArray (ListArray64 [0] [2] (Other [4, 2])) 1"] v
  obtain p where "nonlocal_prepare example_Kernels ''ListOffsetArray64'' [0, 2, 3] [0, 0] 1 = Inr p"
    by blast
  with w have "nonlocal_prepare example_Kernels ''ListOffsetArray64'' [0, 2, 3] [0, 0] 1 = Inr p
          \<and> p_nextcarry p = [0, 2, 1] \<and> p_nextparents p = [0, 0, 1]
          \<and> p_maxnextparents p = 1 \<and> p_nextstarts p = [0, 2]"
    by simp
  with h1 h2 v show ?thesis by blast
qed

text \<open>
  Claim C2. On a 64-bit list layer in the local branch (the content branches, or
  \<open>negaxis\<close> is not the branch depth), \<open>reduce_next\<close> returns a layout exactly when the
  content, trimmed to \<open>[offsets[0], offsets[N])\<close>, reduces at the same \<open>negaxis\<close> with the
  \<open>nextparents\<close> of the offsets, and the result is the list with \<open>outoffsets\<close> over the
  reduced content. \<open>outoffsets\<close> has \<open>outlength + 1\<close> elements, so the list has length
  \<open>outlength\<close>; for non-decreasing parents \<open>outoffsets[j+1] - outoffsets[j]\<close> is the number
  of \<open>k\<close> with \<open>parents[k] = j\<close>; and for monotone offsets \<open>nextparents\<close> gives parent
  \<open>i\<close> to every element of sublist \<open>i\<close>.
\<close>

theorem reduce_next64_local:
  assumes "fst (branch_depth C (ListOffsetArray I64 offs c))
             \<or> negaxis \<noteq> snd (branch_depth C (ListOffsetArray I64 offs c))"
    and "offs \<noteq> []"
    and "nextparents = Index64_filled (last offs - offs ! 0)
           (snd (awkward_listoffsetarray_reduce_local_nextparents_64 offs
                   (int (length offs) - 1)))"
    and "outoffsets = Index64_filled (outlength + 1)
           (snd (awkward_listoffsetarray_reduce_local_outoffsets_64 parents
                   (int (length parents)) outlength))"
  shows "(reduce_next64 C K (ListOffsetArray I64 offs c)
             reducer negaxis starts parents outlength mask' keepdims = Inr out
          \<longleftrightarrow>
          (\<exists>trimmed outcontent.
              offs ! 0 \<le> last offs
            \<and> content_getitem_range_nowrap C c (offs ! 0) (last offs) = Inr trimmed
            \<and> content_reduce_next C trimmed reducer negaxis (make_starts offs) nextparents
                  (int (length offs) - 1) mask' keepdims = Inr outcontent
            \<and> 0 \<le> outlength
            \<and> out = ListOffsetArray I64 outoffsets outcontent))
       \<and> (0 \<le> outlength \<longrightarrow>
             int (length outoffsets) = outlength + 1
           \<and> (\<forall>outcontent. length_array (ListOffsetArray I64 outoffsets outcontent) = outlength))
       \<and> (sorted parents \<longrightarrow>
             (\<forall>j. 0 \<le> j \<and> j < outlength \<longrightarrow>
                outoffsets ! nat (j + 1) - outoffsets ! nat j
                  = int (card {k. k < length parents \<and> parents ! k = j})))
       \<and> (sorted offs \<longrightarrow>
             (\<forall>i k. i + 1 < length offs \<and> offs ! i \<le> offs ! 0 + int k
                     \<and> offs ! 0 + int k < offs ! (i + 1) \<longrightarrow>
                k < length nextparents \<and> nextparents ! k = int i))"
proof -
  have "nat (int (length offs) - 1) = length offs - 1" by arith
  then have last: "offs ! nat (int (length offs) - 1) = last offs"
    using assms(2) by (simp add: last_conv_nth)
  have run: "reduce_next64 C K (ListOffsetArray I64 offs c)
             reducer negaxis starts parents outlength mask' keepdims = Inr out
          \<longleftrightarrow>
          (\<exists>trimmed outcontent.
              offs ! 0 \<le> last offs
            \<and> content_getitem_range_nowrap C c (offs ! 0) (last offs) = Inr trimmed
            \<and> content_reduce_next C trimmed reducer negaxis (make_starts offs) nextparents
                  (int (length offs) - 1) mask' keepdims = Inr outcontent
            \<and> 0 \<le> outlength
            \<and> out = ListOffsetArray I64 outoffsets outcontent)"
    using assms(1)
    apply (simp add: bind_exn_eq_Inr handle_error_eq_Inr Index64_new_eq_Inr Let_def
        awkward_listoffsetarray_reduce_global_startstop_64_def last
        case_prod_beta ListOffsetArrayOf_def length_Index64_filled assms(3,4)
        awkward_listoffsetarray_reduce_local_nextparents_64_def
        awkward_listoffsetarray_reduce_local_outoffsets_64_def
        del: branch_depth.simps)
    apply (auto simp add: handle_error_def)
    done
  have len: "0 \<le> outlength \<longrightarrow>
             int (length outoffsets) = outlength + 1
           \<and> (\<forall>outcontent. length_array (ListOffsetArray I64 outoffsets outcontent) = outlength)"
    by (simp add: assms(4) length_Index64_filled)
  have counts: "sorted parents \<longrightarrow>
             (\<forall>j. 0 \<le> j \<and> j < outlength \<longrightarrow>
                outoffsets ! nat (j + 1) - outoffsets ! nat j
                  = int (card {k. k < length parents \<and> parents ! k = j}))"
  proof (intro impI allI)
    fix j assume "0 \<le> j \<and> j < outlength"
    then have j: "0 \<le> j" "nat (j + 1) < nat (outlength + 1)" "nat j < nat (outlength + 1)"
      by simp_all
    show "outoffsets ! nat (j + 1) - outoffsets ! nat j
            = int (card {k. k < length parents \<and> parents ! k = j})"
      unfolding assms(4) nth_Index64_filled [OF j(2)] nth_Index64_filled [OF j(3)]
      by (rule local_outoffsets_step [OF j(1)])
  qed
  have owners: "sorted offs \<longrightarrow>
             (\<forall>i k. i + 1 < length offs \<and> offs ! i \<le> offs ! 0 + int k
                     \<and> offs ! 0 + int k < offs ! (i + 1) \<longrightarrow>
                k < length nextparents \<and> nextparents ! k = int i)"
  proof (intro impI allI)
    fix i k
    assume s: "sorted offs"
      and "i + 1 < length offs \<and> offs ! i \<le> offs ! 0 + int k
             \<and> offs ! 0 + int k < offs ! (i + 1)"
    then have i: "i + 1 < length offs" and lo: "offs ! i \<le> offs ! 0 + int k"
      and hi: "offs ! 0 + int k < offs ! (i + 1)" by simp_all
    have "offs ! (i + 1) \<le> offs ! (length offs - 1)"
      using s i by (intro sorted_nth_mono) auto
    then have "offs ! (i + 1) \<le> last offs"
      using assms(2) by (simp add: last_conv_nth)
    with hi have k: "k < nat (last offs - offs ! 0)" by simp
    show "k < length nextparents \<and> nextparents ! k = int i"
      unfolding assms(3) length_Index64_filled nth_Index64_filled [OF k]
      using k local_nextparents_assigns [OF s i lo hi] by simp
  qed
  from run len counts owners show ?thesis by blast
qed

theorem reduce_next64_local_witness:
  "reduce_next64 flat_Content example_Kernels
       (ListOffsetArray I64 [0, 3, 3, 5, 6] (Other [1, 2, 3, 4, 5, 6]))
       ReducerSum 1 [0] [0, 0, 0, 1] 2 False False
     = Inr (ListOffsetArray I64 [0, 3, 4] (Other [6, 0, 9, 6]))
   \<and> [0, 0, 0, 2, 2, 3]
       = Index64_filled (last [0, 3, 3, 5, 6] - [0, 3, 3, 5, 6] ! 0)
           (snd (awkward_listoffsetarray_reduce_local_nextparents_64 [0, 3, 3, 5, 6]
                   (int (length [0, 3, 3, 5, 6 :: int]) - 1)))
   \<and> [0, 3, 4]
       = Index64_filled (2 + 1)
           (snd (awkward_listoffsetarray_reduce_local_outoffsets_64 [0, 0, 0, 1]
                   (int (length [0, 0, 0, 1 :: int])) 2))
   \<and> [0, 3, 4] ! nat (0 + 1) - [0, 3, 4] ! nat 0
       = int (card {k. k < length [0, 0, 0, 1 :: int] \<and> [0, 0, 0, 1 :: int] ! k = 0})
   \<and> (\<exists>trimmed. content_getitem_range_nowrap flat_Content (Other [1, 2, 3, 4, 5, 6])
                    ([0, 3, 3, 5, 6] ! 0) (last [0, 3, 3, 5, 6]) = Inr trimmed)
   \<and> int (length [0, 3, 4 :: int]) = 2 + 1
   \<and> 3 < length [0, 0, 0, 2, 2, 3 :: int]
   \<and> [0, 0, 0, 2, 2, 3] ! 3 = int 2"
proof -
  let ?a = "ListOffsetArray I64 [0, 3, 3, 5, 6] (Other [1, 2, 3, 4, 5, 6 :: int])"
  have h1: "fst (branch_depth flat_Content ?a) \<or> 1 \<noteq> snd (branch_depth flat_Content ?a)"
    by (simp add: flat_Content_def)
  have h2: "[0, 3, 3, 5, 6 :: int] \<noteq> []" by simp
  have h3: "[0, 0, 0, 2, 2, 3]
       = Index64_filled (last [0, 3, 3, 5, 6] - [0, 3, 3, 5, 6] ! 0)
           (snd (awkward_listoffsetarray_reduce_local_nextparents_64 [0, 3, 3, 5, 6]
                   (int (length [0, 3, 3, 5, 6 :: int]) - 1)))"
    by code_simp
  have h4: "[0, 3, 4]
       = Index64_filled (2 + 1)
           (snd (awkward_listoffsetarray_reduce_local_outoffsets_64 [0, 0, 0, 1]
                   (int (length [0, 0, 0, 1 :: int])) 2))"
    by code_simp
  have v: "reduce_next64 flat_Content example_Kernels ?a
             ReducerSum 1 [0] [0, 0, 0, 1] 2 False False
           = Inr (ListOffsetArray I64 [0, 3, 4] (Other [6, 0, 9, 6]))"
    by code_simp
  note t = reduce_next64_local [OF h1 h2 h3 h4, of example_Kernels ReducerSum "[0]" False False
      "ListOffsetArray I64 [0, 3, 4] (Other [6, 0, 9, 6])"]
  have s: "sorted [0, 0, 0, 1 :: int]" by simp
  have z: "(0::int) \<le> 0 \<and> (0::int) < 2" by simp
  have r: "[0, 3, 4] ! nat (0 + 1) - [0, 3, 4] ! nat 0
       = int (card {k. k < length [0, 0, 0, 1 :: int] \<and> [0, 0, 0, 1 :: int] ! k = 0})"
    by (rule t [THEN conjunct2, THEN conjunct2, THEN conjunct1, rule_format, OF s z])
  from iffD1 [OF t [THEN conjunct1] v]
  have e: "\<exists>trimmed. content_getitem_range_nowrap flat_Content (Other [1, 2, 3, 4, 5, 6])
                    ([0, 3, 3, 5, 6] ! 0) (last [0, 3, 3, 5, 6]) = Inr trimmed"
    by (elim exE conjE) (rule exI, assumption)
  have nonneg: "(0::int) \<le> 2" by simp
  have len: "int (length [0, 3, 4 :: int]) = 2 + 1"
    by (rule t [THEN conjunct2, THEN conjunct1, THEN mp, OF nonneg, THEN conjunct1])
  have so: "sorted [0, 3, 3, 5, 6 :: int]" by simp
  have inside: "2 + 1 < length [0, 3, 3, 5, 6 :: int]
      \<and> [0, 3, 3, 5, 6] ! 2 \<le> [0, 3, 3, 5, 6] ! 0 + int 3
      \<and> [0, 3, 3, 5, 6] ! 0 + int 3 < [0, 3, 3, 5, 6 :: int] ! (2 + 1)"
    by simp
  note own = t [THEN conjunct2, THEN conjunct2, THEN conjunct2, rule_format, OF so inside]
  show ?thesis
    by (rule conjI [OF v conjI [OF h3 conjI [OF h4 conjI [OF r conjI [OF e conjI [OF len own]]]]]])
qed

text \<open>
  Claim C4. For a list layer with 32-bit signed or unsigned offsets, \<open>reduce_next\<close> returns
  what \<open>reduce_next\<close> returns on the result of \<open>toListOffsetArray64(true)\<close>, with the same
  arguments (and fails as the conversion does when the conversion fails).
\<close>

theorem reduce_next_converts_first:
  assumes "T = I32 \<or> T = U32"
  shows "reduce_next C K (ListOffsetArray T offs c)
             reducer negaxis starts parents outlength mask' keepdims
           = reduce_next_canonical C K (ListOffsetArray T offs c)
               reducer negaxis starts parents outlength mask' keepdims"
proof (cases "toListOffsetArray64 C K (ListOffsetArray T offs c) True")
  case (Inl e)
  with assms show ?thesis
    by (auto simp add: reduce_next_canonical_def
        simp del: toListOffsetArray64.simps reduce_next64.simps)
next
  case (Inr r)
  then obtain offsets c' where r: "r = ListOffsetArray I64 offsets c'"
    using toListOffsetArray64_width by blast
  with Inr assms show ?thesis
    by (auto simp add: reduce_next_canonical_def
        simp del: toListOffsetArray64.simps reduce_next64.simps)
qed

theorem reduce_next_converts_first_witness:
  "(I32 = I32 \<or> I32 = U32)
   \<and> reduce_next flat_Content example_Kernels (ListOffsetArray I32 [1, 3, 4] (Other [9, 1, 2, 3]))
         ReducerSum 1 [0] [0, 0] 1 False False
       = Inr (ListOffsetArray I64 [0, 2] (Other [3, 3]))
   \<and> toListOffsetArray64 flat_Content example_Kernels
         (ListOffsetArray I32 [1, 3, 4] (Other [9, 1, 2, 3])) True
       = Inr (ListOffsetArray I64 [0, 2, 3] (Other [1, 2, 3]))"
proof -
  have h: "I32 = I32 \<or> I32 = U32" by simp
  have v: "reduce_next_canonical flat_Content example_Kernels
             (ListOffsetArray I32 [1, 3, 4] (Other [9, 1, 2, 3]))
             ReducerSum 1 [0] [0, 0] 1 False False
           = Inr (ListOffsetArray I64 [0, 2] (Other [3, 3]))"
    by code_simp
  have w: "toListOffsetArray64 flat_Content example_Kernels
         (ListOffsetArray I32 [1, 3, 4] (Other [9, 1, 2, 3])) True
       = Inr (ListOffsetArray I64 [0, 2, 3] (Other [1, 2, 3]))"
    by code_simp
  from reduce_next_converts_first [OF h] v w show ?thesis by metis
qed

section \<open>Sorting\<close>

text \<open>
  What \<open>sort_next\<close> and \<open>argsort_next\<close> of the 64-bit list layer do at the target
  axis: they return a layout exactly when every step succeeds (the preparation, the carry
  by \<open>nextcarry\<close>, the content's sort or argsort, the kernel \<open>local_preparenext\<close> applied
  to \<open>nextcarry\<close>, which gives \<open>outcarry\<close>, and the carry of the sorted content by
  \<open>outcarry\<close>), and the result is then the list with the array's own offsets, unshifted,
  over that content, in a regular layer when \<open>keepdims\<close> is set.
\<close>

lemma sort_next64_steps:
  assumes "\<not> fst (branch_depth C (ListOffsetArray I64 offs c))"
    and "negaxis = snd (branch_depth C (ListOffsetArray I64 offs c))"
  shows "(sort_next64 C K (ListOffsetArray I64 offs c)
             negaxis starts parents outlength ascending stable' keepdims = Inr out
          \<longleftrightarrow>
          (\<exists>p nextcontent sorted outcarry outcontent.
              int (length offs) - 1 = int (length parents)
            \<and> nonlocal_prepare K ''ListOffsetArray64'' offs parents outlength = Inr p
            \<and> content_carry C c (p_nextcarry p) = Inr nextcontent
            \<and> content_sort_next C nextcontent (negaxis - 1)
                  (p_nextstarts p) (p_nextparents p) (int (content_length C nextcontent))
                  ascending stable' False = Inr sorted
            \<and> awkward_listoffsetarray_local_preparenext_64 K (p_nextcarry p) (p_nextlen p)
                = (success, outcarry)
            \<and> content_carry C sorted (Index64_filled (p_nextlen p) outcarry) = Inr outcontent
            \<and> out = (if keepdims
                      then RegularArray (ListOffsetArray I64 offs outcontent)
                             (int (length offs) - 1)
                      else ListOffsetArray I64 offs outcontent)
            \<and> offsets_of (ListOffsetArray I64 offs outcontent) = offs))
       \<and> (argsort_next64 C K (ListOffsetArray I64 offs c)
             negaxis starts parents outlength ascending stable' keepdims = Inr out'
          \<longleftrightarrow>
          (\<exists>p nextcontent sorted outcarry outcontent.
              int (length offs) - 1 = int (length parents)
            \<and> nonlocal_prepare K ''ListOffsetArray64'' offs parents outlength = Inr p
            \<and> content_carry C c (p_nextcarry p) = Inr nextcontent
            \<and> content_argsort_next C nextcontent (negaxis - 1)
                  (p_nextstarts p) (p_nextparents p) (p_maxnextparents p + 1)
                  ascending stable' False = Inr sorted
            \<and> awkward_listoffsetarray_local_preparenext_64 K (p_nextcarry p) (p_nextlen p)
                = (success, outcarry)
            \<and> content_carry C sorted (Index64_filled (p_nextlen p) outcarry) = Inr outcontent
            \<and> out' = (if keepdims
                       then RegularArray (ListOffsetArray I64 offs outcontent)
                              (int (length offs) - 1)
                       else ListOffsetArray I64 offs outcontent)
            \<and> offsets_of (ListOffsetArray I64 offs outcontent) = offs))"
  using assms
  apply (simp add: check_parents_length_def bind_exn_eq_Inr handle_error_eq_Inr
      Index64_new_eq_Inr Let_def case_prod_beta ListOffsetArrayOf_def
      del: branch_depth.simps)
  apply (auto simp add: prod_eq_iff dest: nonlocal_prepare_nextlen)
  done

text \<open>
  In particular the content of the result is a carry by an index of
  \<open>offsets[N] - offsets[0]\<close> elements, and the offsets around it are the original ones.
\<close>

lemma nonlocal_prepare_nextlen_value:
  assumes "nonlocal_prepare K cls offs parents outlength = Inr p" and "offs \<noteq> []"
  shows "p_nextlen p = last offs - offs ! 0"
proof -
  have "nat (int (length offs) - 1) = length offs - 1" by arith
  then have "offs ! nat (int (length offs) - 1) = last offs"
    using assms(2) by (simp add: last_conv_nth)
  with assms(1) show ?thesis
    by (auto simp add: nonlocal_prepare_def bind_exn_eq_Inr Let_def case_prod_beta
        awkward_listoffsetarray_reduce_global_startstop_64_def)
qed

lemma sort_next64_unshifted:
  assumes "\<not> fst (branch_depth C (ListOffsetArray I64 offs c))"
    and "negaxis = snd (branch_depth C (ListOffsetArray I64 offs c))"
    and "sort_next64 C K (ListOffsetArray I64 offs c)
           negaxis starts parents outlength ascending stable' False = Inr out"
  shows "\<exists>sorted outcarry outcontent.
           content_carry C sorted (Index64_filled (last offs - offs ! 0) outcarry)
             = Inr outcontent
         \<and> out = ListOffsetArray I64 offs outcontent"
proof -
  from iffD1 [OF sort_next64_steps [OF assms(1,2), THEN conjunct1] assms(3)]
  obtain p sorted outcarry outcontent where
    len: "int (length offs) - 1 = int (length parents)"
    and prep: "nonlocal_prepare K ''ListOffsetArray64'' offs parents outlength = Inr p"
    and carry: "content_carry C sorted (Index64_filled (p_nextlen p) outcarry) = Inr outcontent"
    and out: "out = ListOffsetArray I64 offs outcontent"
    by auto
  from len have "offs \<noteq> []" by auto
  with prep have "p_nextlen p = last offs - offs ! 0"
    by (rule nonlocal_prepare_nextlen_value)
  with carry out show ?thesis by auto
qed

text \<open>
  Claim C5 says that, because the result is wrapped in the array's original offsets, every
  output sublist has the length of the corresponding input sublist. The code does not
  deliver this when \<open>offsets[0] > 0\<close>: the sorted content has only
  \<open>offsets[N] - offsets[0]\<close> elements, numbered from zero, and the original offsets are
  not shifted. For the list \<open>[[1, 2], [3]]\<close> held as offsets \<open>[1, 3, 4]\<close> over
  \<open>[9, 1, 2, 3]\<close>, \<open>sort_next\<close> and \<open>argsort_next\<close> return offsets \<open>[1, 3, 4]\<close> over a
  content of three elements: sublist 0 of the output reads \<open>[2, 3]\<close> where the input has
  \<open>[1, 2]\<close>, and sublist 1, which the input reads as \<open>[3]\<close>, fails with
  \<open>offsets[i + 1] > len(content)\<close>. The generic template does it right: with 32-bit offsets
  the same list is compacted first and the output is \<open>[0, 2, 3]\<close> over \<open>[1, 2, 3]\<close>.
\<close>

theorem sort_next64_nonzero_start:
  "sort_next64 flat_Content example_Kernels (ListOffsetArray I64 [1, 3, 4] (Other [9, 1, 2, 3]))
       2 [0] [0, 0] 1 True True False
     = Inr (ListOffsetArray I64 [1, 3, 4] (Other [1, 2, 3]))
   \<and> argsort_next64 flat_Content example_Kernels
         (ListOffsetArray I64 [1, 3, 4] (Other [9, 1, 2, 3])) 2 [0] [0, 0] 1 True True False
     = Inr (ListOffsetArray I64 [1, 3, 4] (Other [0, 2, 1]))
   \<and> getitem_at_nowrap flat_Content (ListOffsetArray I64 [1, 3, 4] (Other [9, 1, 2, 3])) 0
     = Inr (Other [1, 2])
   \<and> getitem_at_nowrap flat_Content (ListOffsetArray I64 [1, 3, 4] (Other [1, 2, 3])) 0
     = Inr (Other [2, 3])
   \<and> getitem_at_nowrap flat_Content (ListOffsetArray I64 [1, 3, 4] (Other [9, 1, 2, 3])) 1
     = Inr (Other [3])
   \<and> getitem_at_nowrap flat_Content (ListOffsetArray I64 [1, 3, 4] (Other [1, 2, 3])) 1
     = Inl (kernel_error ''ListOffsetArray64''
             ''offsets[i] != offsets[i + 1] and offsets[i + 1] > len(content)''
             kSliceNone (Some 1))
   \<and> sort_next flat_Content example_Kernels (ListOffsetArray I32 [1, 3, 4] (Other [9, 1, 2, 3]))
       2 [0] [0, 0] 1 True True False
     = Inr (ListOffsetArray I64 [0, 2, 3] (Other [1, 2, 3]))
   \<and> getitem_at_nowrap flat_Content (ListOffsetArray I64 [0, 2, 3] (Other [1, 2, 3])) 0
     = Inr (Other [1, 2])
   \<and> getitem_at_nowrap flat_Content (ListOffsetArray I64 [0, 2, 3] (Other [1, 2, 3])) 1
     = Inr (Other [3])"
  by code_simp

text \<open>
  The two facts that make the defect: the method returns the unshifted offsets over three
  elements, and the second sublist of that result cannot be read.
\<close>

theorem sort_next64_nonzero_start_witness:
  "sort_next64 flat_Content example_Kernels (ListOffsetArray I64 [1, 3, 4] (Other [9, 1, 2, 3]))
       2 [0] [0, 0] 1 True True False
     = Inr (ListOffsetArray I64 [1, 3, 4] (Other [1, 2, 3]))
   \<and> getitem_at_nowrap flat_Content (ListOffsetArray I64 [1, 3, 4] (Other [1, 2, 3])) 1
     = Inl (kernel_error ''ListOffsetArray64''
             ''offsets[i] != offsets[i + 1] and offsets[i + 1] > len(content)''
             kSliceNone (Some 1))"
  by (rule conjI [OF sort_next64_nonzero_start [THEN conjunct1]
        sort_next64_nonzero_start [THEN conjunct2, THEN conjunct2, THEN conjunct2,
          THEN conjunct2, THEN conjunct2, THEN conjunct1]])

end
